theory Spec2Isabelle
  imports Complex_Main "HOL-Library.AList" "HOL-Library.Multiset"
    "HOL-Library.Char_ord" "HOL-Library.List_Lexorder"
begin

section \<open>Python values used by the backend\<close>

text \<open>
  Exceptions are values. Only subclasses of Python's \<open>Exception\<close> are modelled: every
  handler in the code under study is \<open>except Exception\<close> (or \<open>except TypeError\<close>), so
  \<open>KeyboardInterrupt\<close> and friends are outside the model. A string is a \<open>char list\<close>;
  a \<open>char\<close> is read as the code point of the same number, U+0000 to U+00FF, and the
  string predicates below are Python's on that whole range. Text built for the language
  model is a list of code points (\<open>nat\<close>), since upper-casing leaves that range.
\<close>

datatype error =
    KeyError | AttributeError | TypeError | IndexError | ValueError
  | AssertionError | DatabaseError | NetworkError | OtherError

text \<open>\<open>xs[i:j]\<close> and \<open>xs[i:]\<close> with Python's treatment of negative and oversized bounds.\<close>

definition slice_bound :: "nat \<Rightarrow> int \<Rightarrow> nat" where
  "slice_bound n i = (if i < 0 then nat (max (i + int n) 0) else min (nat i) n)"

definition py_slice :: "'a list \<Rightarrow> int \<Rightarrow> int \<Rightarrow> 'a list" where
  "py_slice xs i j =
     (let lo = slice_bound (length xs) i; hi = slice_bound (length xs) j
      in take (hi - lo) (drop lo xs))"

definition py_slice_from :: "'a list \<Rightarrow> int \<Rightarrow> 'a list" where
  "py_slice_from xs i = drop (slice_bound (length xs) i) xs"

text \<open>
  \<open>str.isspace\<close> on one character: the ASCII controls 9 to 13 and 28 to 31, the space,
  U+0085 (next line) and U+00A0 (no-break space). \<open>str.strip()\<close> removes such characters
  from both ends.
\<close>

definition is_space :: "char \<Rightarrow> bool" where
  "is_space c =
     (let k = (of_char c :: nat)
      in (9 \<le> k \<and> k \<le> 13) \<or> (28 \<le> k \<and> k \<le> 32) \<or> k = 133 \<or> k = 160)"

definition py_strip :: "string \<Rightarrow> string" where
  "py_strip s = rev (dropWhile is_space (rev (dropWhile is_space s)))"

text \<open>
  \<open>str.upper()\<close>, as code points: \<open>a\<close> to \<open>z\<close> and U+00E0 to U+00FE (but for the
  division sign U+00F7) move down by 32, the micro sign U+00B5 becomes U+039C, the sharp
  s U+00DF becomes \<open>SS\<close>, and U+00FF becomes U+0178.
\<close>

type_synonym ustring = "nat list"

definition code_points :: "string \<Rightarrow> ustring" where
  "code_points s = map of_char s"

definition upper_char :: "char \<Rightarrow> ustring" where
  "upper_char c =
     (let k = (of_char c :: nat)
      in if 97 \<le> k \<and> k \<le> 122 then [k - 32]
         else if k = 181 then [924]
         else if k = 223 then [83, 83]
         else if 224 \<le> k \<and> k \<le> 254 \<and> k \<noteq> 247 then [k - 32]
         else if k = 255 then [376]
         else [k])"

definition py_upper :: "string \<Rightarrow> ustring" where
  "py_upper s = concat (map upper_char s)"

text \<open>\<open>str(n)\<close> for a length.\<close>

definition digit_char :: "nat \<Rightarrow> char" where
  "digit_char d = char_of (48 + d)"

function str_nat :: "nat \<Rightarrow> string" where
  "str_nat n = (if n < 10 then [digit_char n] else str_nat (n div 10) @ [digit_char (n mod 10)])"
  by pat_completeness auto
termination
  by (relation "measure id") auto

declare str_nat.simps [simp del]

definition newline :: ustring where
  "newline = [10]"

text \<open>\<open>sep.join(parts)\<close> and a triple-quoted block whose every line ends in a newline.\<close>

fun py_join :: "'a list \<Rightarrow> 'a list list \<Rightarrow> 'a list" where
  "py_join sep [] = []"
| "py_join sep [p] = p"
| "py_join sep (p # q # ps) = p @ sep @ py_join sep (q # ps)"

definition text_block :: "ustring list \<Rightarrow> ustring" where
  "text_block ls = concat (map (\<lambda>l. l @ newline) ls)"

section \<open>Messages and the summary agent (service/summary\_agent.py)\<close>

text \<open>
  A message is a dict. \<open>role\<close> is \<open>None\<close> when the key is missing (then \<open>msg['role']\<close>
  raises \<open>KeyError\<close>); the content is either a string or some structured payload.
\<close>

datatype msg_content = Text string | Structured

record message =
  role :: "string option"
  content :: msg_content

text \<open>
  The language model is an external collaborator. \<open>chat_parse\<close> stands for everything from
  \<open>get_config()\<close> to reading \<open>completion.choices[0].message.parsed\<close>: it yields the parsed
  result (\<open>None\<close> or its \<open>summary\<close> field), or raises the \<open>TypeError\<close> whose text contains
  \<open>'NoneType' object is not iterable\<close>, or raises something else. \<open>chat_create\<close> is the
  plain completion used as a fallback; its \<open>content\<close> may be \<open>None\<close>.
\<close>

datatype parse_outcome =
    Parsed "string option"
  | NoneTypeNotIterable
  | ParseRaises error

datatype create_outcome =
    Created "string option"
  | CreateRaises error

record llm =
  chat_parse :: "ustring \<Rightarrow> ustring \<Rightarrow> parse_outcome"
  chat_create :: "ustring \<Rightarrow> ustring \<Rightarrow> create_outcome"

text \<open>Python truthiness of an optional string: \<open>None\<close> and \<open>""\<close> are false.\<close>

definition truthy :: "string option \<Rightarrow> bool" where
  "truthy s = (case s of None \<Rightarrow> False | Some t \<Rightarrow> t \<noteq> [])"

definition format_message :: "message \<Rightarrow> error + ustring" where
  "format_message msg =
     (case role msg of
        None \<Rightarrow> Inl KeyError
      | Some r \<Rightarrow>
          (case content msg of
             Text c \<Rightarrow> Inr (code_points ''**'' @ py_upper r @ code_points ''**: '' @ code_points c)
           | Structured \<Rightarrow> Inr []))"

definition has_text :: "message \<Rightarrow> bool" where
  "has_text msg = (case content msg of Text _ \<Rightarrow> True | Structured \<Rightarrow> False)"

fun format_all :: "message list \<Rightarrow> error + ustring list" where
  "format_all [] = Inr []"
| "format_all (m # ms) =
     (case format_message m of
        Inl e \<Rightarrow> Inl e
      | Inr s \<Rightarrow> (case format_all ms of Inl e \<Rightarrow> Inl e | Inr ss \<Rightarrow> Inr (s # ss)))"

definition messages_text :: "message list \<Rightarrow> error + ustring" where
  "messages_text msgs =
     (case format_all (filter has_text msgs) of
        Inl e \<Rightarrow> Inl e
      | Inr parts \<Rightarrow> Inr (py_join (newline @ newline) parts))"

definition user_prompt :: "string option \<Rightarrow> ustring \<Rightarrow> ustring" where
  "user_prompt previous_summary mtext =
     (if truthy previous_summary then
        text_block
          [code_points ''Please generate a concise summary of the following conversation history, integrating it with the previous summary.'',
           code_points '''',
           code_points ''## Previous Summary'',
           code_points (the previous_summary),
           code_points '''',
           code_points ''## New Conversation Messages'',
           mtext,
           code_points '''',
           code_points ''## Requirements'',
           code_points ''- Maximum 200 words'',
           code_points ''- Focus on key topics, decisions, and important context'',
           code_points ''- Use clear, objective language'',
           code_points ''- Integrate previous summary seamlessly with new information'',
           code_points ''- Avoid redundancy'']
      else
        text_block
          [code_points ''Please generate a concise summary of the following conversation history.'',
           code_points '''',
           code_points ''## Conversation Messages'',
           mtext,
           code_points '''',
           code_points ''## Requirements'',
           code_points ''- Maximum 200 words'',
           code_points ''- Focus on key topics, decisions, and important context'',
           code_points ''- Use clear, objective language''])"

definition system_prompt :: ustring where
  "system_prompt =
     py_join newline
       [code_points ''You are an expert conversation summarizer. Your task is to create concise, informative summaries of conversation histories that preserve the most important information while reducing token usage.'',
        code_points '''',
        code_points ''Focus on:'',
        code_points ''- Main topics discussed'',
        code_points ''- Key decisions or conclusions'',
        code_points ''- Important technical details or requirements'',
        code_points ''- User's goals and preferences'',
        code_points ''- Context that would be needed for future interactions'',
        code_points '''',
        code_points ''Keep summaries factual, objective, and efficient.'']"

text \<open>The body of the \<open>try\<close> block of \<open>generate_summary\<close>.\<close>

definition generate_summary_try :: "llm \<Rightarrow> message list \<Rightarrow> string option \<Rightarrow> error + string" where
  "generate_summary_try env msgs previous_summary =
     (case messages_text msgs of
        Inl e \<Rightarrow> Inl e
      | Inr mtext \<Rightarrow>
          (let prompt = user_prompt previous_summary mtext in
           case (case chat_parse env system_prompt prompt of
                   Parsed result \<Rightarrow> Inr (case result of None \<Rightarrow> Some [] | Some s \<Rightarrow> Some s)
                 | NoneTypeNotIterable \<Rightarrow>
                     (case chat_create env system_prompt prompt of
                        Created c \<Rightarrow> Inr c
                      | CreateRaises e \<Rightarrow> Inl e)
                 | ParseRaises e \<Rightarrow> Inl e) of
             Inl e \<Rightarrow> Inl e
           | Inr summary_text \<Rightarrow>
               (if truthy summary_text then Inr (the summary_text) else Inr [])))"

text \<open>The \<open>except Exception\<close> handler of \<open>generate_summary\<close>.\<close>

definition fallback_summary :: "message list \<Rightarrow> string option \<Rightarrow> string" where
  "fallback_summary msgs previous_summary =
     (let fallback = ''Conversation with '' @ str_nat (length msgs) @ '' messages''
      in if truthy previous_summary then the previous_summary @ '' | '' @ fallback else fallback)"

definition generate_summary :: "llm \<Rightarrow> message list \<Rightarrow> string option \<Rightarrow> error + string" where
  "generate_summary env msgs previous_summary =
     (case generate_summary_try env msgs previous_summary of
        Inl e \<Rightarrow> Inr (fallback_summary msgs previous_summary)
      | Inr s \<Rightarrow> Inr s)"

section \<open>The session store (dao/session\_message\_table.py)\<close>

text \<open>
  One row per session id. Only the columns the memory service reads or writes are kept
  (\<open>messages\<close>, \<open>index\<close>, \<open>summary\<close>); \<open>id\<close>, \<open>attributes\<close> and \<open>created_at\<close> play no part in
  it. The table is a map from session id to row. A database call may raise; which of the
  calls made during one request do so is given by \<open>faults\<close>. A failed write is rolled
  back, so it leaves the table as it was.
\<close>

record session_record =
  messages :: "message list"
  index :: int
  summary :: "string option"

type_synonym store = "string \<rightharpoonup> session_record"

datatype db_op = OpGet | OpSave | OpUpdate

type_synonym faults = "db_op \<Rightarrow> bool"

definition get_session_message :: "faults \<Rightarrow> string \<Rightarrow> store \<Rightarrow> error + session_record option" where
  "get_session_message f session_id st = (if f OpGet then Inl DatabaseError else Inr (st session_id))"

definition save_session_message ::
  "faults \<Rightarrow> string \<Rightarrow> message list \<Rightarrow> int \<Rightarrow> string option \<Rightarrow> store \<Rightarrow> error + store" where
  "save_session_message f session_id msgs idx summ st =
     (if f OpSave then Inl DatabaseError
      else case st session_id of
             Some record \<Rightarrow>
               Inr (st(session_id \<mapsto> record\<lparr>messages := msgs, index := idx, summary := summ\<rparr>))
           | None \<Rightarrow>
               Inr (st(session_id \<mapsto> \<lparr>messages = msgs, index = idx, summary = summ\<rparr>)))"

definition update_summary ::
  "faults \<Rightarrow> string \<Rightarrow> string \<Rightarrow> int \<Rightarrow> store \<Rightarrow> error + (bool \<times> store)" where
  "update_summary f session_id summ idx st =
     (if f OpUpdate then Inl DatabaseError
      else case st session_id of
             Some record \<Rightarrow>
               Inr (True, st(session_id \<mapsto> record\<lparr>summary := Some summ, index := idx\<rparr>))
           | None \<Rightarrow> Inr (False, st))"

section \<open>The memory compactor (service/message\_memory.py)\<close>

definition COMPRESSION_THRESHOLD :: int where
  "COMPRESSION_THRESHOLD = 8"

definition KEEP_RECENT_MESSAGES :: int where
  "KEEP_RECENT_MESSAGES = 4"

definition summary_context :: "string \<Rightarrow> message" where
  "summary_context s =
     \<lparr>role = Some ''user'', content = Text (''[Context from previous conversation]: '' @ s)\<rparr>"

definition build_optimized_messages :: "string option \<Rightarrow> message list \<Rightarrow> int \<Rightarrow> message list" where
  "build_optimized_messages summ full_messages idx =
     (let recent_messages = py_slice_from full_messages idx
      in if truthy summ \<and> length (py_strip (the summ)) > 0 \<and> length recent_messages > 0
         then [summary_context (the summ)] @ recent_messages
         else recent_messages)"

text \<open>
  The summarizer is whatever the name \<open>generate_summary\<close> is bound to at the call; it is a
  parameter here, so that a summarizer that raises is covered too. The body of the \<open>try\<close>
  block returns its result, or the exception, together with the table as the calls made
  so far have left it.
\<close>

type_synonym summarizer = "message list \<Rightarrow> string option \<Rightarrow> error + string"

definition message_memory_optimize_try ::
  "summarizer \<Rightarrow> faults \<Rightarrow> string \<Rightarrow> message list \<Rightarrow> store \<Rightarrow> (error + message list) \<times> store" where
  "message_memory_optimize_try summarize f session_id msgs st =
     (case get_session_message f session_id st of
        Inl e \<Rightarrow> (Inl e, st)
      | Inr None \<Rightarrow>
          (case save_session_message f session_id msgs 0 None st of
             Inl e \<Rightarrow> (Inl e, st)
           | Inr st1 \<Rightarrow> (Inr msgs, st1))
      | Inr (Some record) \<Rightarrow>
          (let current_index = index record; current_summary = summary record in
           case save_session_message f session_id msgs current_index current_summary st of
             Inl e \<Rightarrow> (Inl e, st)
           | Inr st1 \<Rightarrow>
               (let uncompressed_count = int (length msgs) - current_index in
                if uncompressed_count \<le> COMPRESSION_THRESHOLD
                then (Inr (build_optimized_messages current_summary msgs current_index), st1)
                else
                  (let compress_end_index = int (length msgs) - KEEP_RECENT_MESSAGES;
                       messages_to_compress = py_slice msgs current_index compress_end_index in
                   case summarize messages_to_compress current_summary of
                     Inl e \<Rightarrow> (Inl e, st1)
                   | Inr new_summary \<Rightarrow>
                       (case update_summary f session_id new_summary compress_end_index st1 of
                          Inl e \<Rightarrow> (Inl e, st1)
                        | Inr (_, st2) \<Rightarrow>
                            (Inr (build_optimized_messages (Some new_summary) msgs compress_end_index),
                             st2))))))"

text \<open>The whole function: the \<open>except Exception\<close> handler returns the caller's list.\<close>

definition message_memory_optimize ::
  "summarizer \<Rightarrow> faults \<Rightarrow> string \<Rightarrow> message list \<Rightarrow> store \<Rightarrow> message list \<times> store" where
  "message_memory_optimize summarize f session_id msgs st =
     (case message_memory_optimize_try summarize f session_id msgs st of
        (Inl e, st') \<Rightarrow> (msgs, st')
      | (Inr view, st') \<Rightarrow> (view, st'))"

text \<open>No database call fails.\<close>

definition no_faults :: faults where
  "no_faults = (\<lambda>_. False)"

section \<open>Download progress (controller/model\_api.py)\<close>

text \<open>
  A Python float is a rational number (every finite double is one), and a float
  operation returns the double nearest to the exact result. That rounding, \<open>rnd\<close>, is a
  property of the machine arithmetic and not of this code, so it is a parameter of every
  function below: \<open>a / b\<close> on floats is \<open>rnd (a / b)\<close>, an \<open>int\<close> meeting a float is
  converted by \<open>rnd\<close> first, and \<open>int / int\<close> is the correctly rounded quotient. Overflow
  and NaN are outside the model.

  \<open>round(x, 2)\<close> on a float takes the exact value of \<open>x\<close> to the nearest multiple of
  1/100, a tie going to the even neighbour, and returns the double nearest to that.
\<close>

type_synonym rounding = "rat \<Rightarrow> rat"

definition round_half_even :: "rat \<Rightarrow> int" where
  "round_half_even x =
     (let fl = \<lfloor>x\<rfloor>; d = x - of_int fl
      in if d < 1 / 2 then fl
         else if 1 / 2 < d then fl + 1
         else if even fl then fl else fl + 1)"

definition py_round2 :: "rounding \<Rightarrow> rat \<Rightarrow> rat" where
  "py_round2 rnd x = rnd (of_int (round_half_even (x * 100)) / 100)"

datatype download_status = Downloading | Completed | Failed

text \<open>One entry of the global \<open>download_progress\<close> dict; \<open>total_time\<close> is absent until \<open>end\<close>.\<close>

record progress_record =
  rec_id :: string
  filename :: string
  file_size :: int
  progress :: int
  percentage :: rat
  status :: download_status
  start_time :: rat
  estimated_time :: "rat option"
  speed :: rat
  error_message :: "string option"
  total_time :: "rat option"

type_synonym registry = "string \<rightharpoonup> progress_record"

text \<open>The attributes of a \<open>DownloadProgressCallback\<close> object.\<close>

record callback =
  self_id :: string
  self_filename :: string
  self_file_size :: int
  self_download_id :: string
  self_progress :: int
  self_status :: download_status
  self_error_message :: "string option"
  self_start_time :: rat

text \<open>\<open>__init__\<close>; \<open>now\<close> is the reading of \<open>time.time()\<close>.\<close>

definition callback_init ::
  "rat \<Rightarrow> string \<Rightarrow> string \<Rightarrow> int \<Rightarrow> string \<Rightarrow> registry \<Rightarrow> callback \<times> registry" where
  "callback_init now ident fname fsize download_id reg =
     (\<lparr>self_id = ident, self_filename = fname, self_file_size = fsize,
       self_download_id = download_id, self_progress = 0, self_status = Downloading,
       self_error_message = None, self_start_time = now\<rparr>,
      reg(download_id \<mapsto>
        \<lparr>rec_id = ident, filename = fname, file_size = fsize, progress = 0, percentage = 0,
         status = Downloading, start_time = now, estimated_time = None, speed = 0,
         error_message = None, total_time = None\<rparr>))"

text \<open>
  The three values \<open>update\<close> computes from the new byte count \<open>p\<close>, the file size and the
  elapsed time, as it writes them: \<open>round(speed, 2)\<close>,
  \<open>round(estimated_time, 2) if estimated_time else None\<close> and \<open>round(percentage, 2)\<close>.
  Where the code takes the constant \<open>0\<close> or \<open>0.0\<close>, rounding leaves it 0.
\<close>

definition update_speed :: "rounding \<Rightarrow> int \<Rightarrow> rat \<Rightarrow> rat" where
  "update_speed rnd p elapsed_time =
     (if elapsed_time > 0 then rnd (rnd (of_int p) / elapsed_time) else 0)"

definition recorded_speed :: "rounding \<Rightarrow> int \<Rightarrow> rat \<Rightarrow> rat" where
  "recorded_speed rnd p elapsed_time =
     (if elapsed_time > 0 then py_round2 rnd (update_speed rnd p elapsed_time) else 0)"

definition recorded_estimate :: "rounding \<Rightarrow> int \<Rightarrow> int \<Rightarrow> rat \<Rightarrow> rat option" where
  "recorded_estimate rnd p fs elapsed_time =
     (if elapsed_time > 0 \<and> update_speed rnd p elapsed_time > 0 \<and> p < fs
      then (let estimated_time = rnd (rnd (of_int (fs - p)) / update_speed rnd p elapsed_time)
            in if estimated_time \<noteq> 0 then Some (py_round2 rnd estimated_time) else None)
      else None)"

definition recorded_percentage :: "rounding \<Rightarrow> int \<Rightarrow> int \<Rightarrow> rat" where
  "recorded_percentage rnd p fs =
     (if fs > 0 then py_round2 rnd (rnd (rnd (of_int p / of_int fs) * 100)) else 0)"

text \<open>\<open>update(size)\<close>.\<close>

definition callback_update ::
  "rounding \<Rightarrow> rat \<Rightarrow> int \<Rightarrow> callback \<times> registry \<Rightarrow> callback \<times> registry" where
  "callback_update rnd now sz cr =
     (let self = (fst cr)\<lparr>self_progress := self_progress (fst cr) + sz\<rparr>;
          reg = snd cr;
          elapsed_time = rnd (now - self_start_time self)
      in case reg (self_download_id self) of
           None \<Rightarrow> (self, reg)
         | Some progress_dict \<Rightarrow>
             (self,
              reg(self_download_id self \<mapsto>
                progress_dict\<lparr>progress := self_progress self,
                               percentage :=
                                 recorded_percentage rnd (self_progress self) (self_file_size self),
                               speed := recorded_speed rnd (self_progress self) elapsed_time,
                               estimated_time :=
                                 recorded_estimate rnd (self_progress self) (self_file_size self)
                                   elapsed_time\<rparr>)))"

text \<open>
  \<open>end(success, error_message)\<close>. The \<open>assert\<close> raises after \<open>self.status\<close> has been set
  and before the dict is touched.
\<close>

definition callback_end ::
  "rounding \<Rightarrow> rat \<Rightarrow> bool \<Rightarrow> string option \<Rightarrow> callback \<times> registry
     \<Rightarrow> (error + unit) \<times> callback \<times> registry" where
  "callback_end rnd now success err cr =
     (let self0 = fst cr; reg = snd cr;
          tt = rnd (now - self_start_time self0)
      in if success \<and> self_progress self0 \<noteq> self_file_size self0
         then (Inl AssertionError, self0\<lparr>self_status := Completed\<rparr>, reg)
         else
           (let self = (if success then self0\<lparr>self_status := Completed\<rparr>
                        else self0\<lparr>self_status := Failed, self_error_message := err\<rparr>)
            in case reg (self_download_id self) of
                 None \<Rightarrow> (Inr (), self, reg)
               | Some progress_dict \<Rightarrow>
                   (Inr (), self,
                    reg(self_download_id self \<mapsto>
                      progress_dict\<lparr>status := self_status self,
                                     progress := (if success then self_file_size self
                                                  else self_progress self),
                                     percentage :=
                                       (if self_file_size self > 0
                                        then (if success then 100
                                              else rnd (rnd (of_int (self_progress self)
                                                             / of_int (self_file_size self)) * 100))
                                        else 0),
                                     total_time := Some (py_round2 rnd tt),
                                     error_message := self_error_message self\<rparr>))))"

text \<open>\<open>fail(error_message)\<close>.\<close>

definition callback_fail ::
  "rounding \<Rightarrow> rat \<Rightarrow> string \<Rightarrow> callback \<times> registry \<Rightarrow> (error + unit) \<times> callback \<times> registry" where
  "callback_fail rnd now err cr = callback_end rnd now False (Some err) cr"

section \<open>The model gateway (utils/model\_gateway.py, utils/model\_source\_base.py)\<close>

datatype model_source_type = HUGGINGFACE | CIVITAI | LOCAL | MODELSCOPE

text \<open>\<open>ModelInfo\<close> and \<open>SearchResult\<close>, with the fields the gateway itself reads.\<close>

record model_info =
  model_id :: string
  model_name :: string
  model_source :: model_source_type
  downloads :: "int option"
  likes :: "int option"
  last_updated :: "string option"

record search_result =
  sr_models :: "model_info list"
  sr_total :: int
  sr_source :: model_source_type
  sr_page :: int
  sr_page_size :: int

text \<open>The keyword arguments handed on to an adapter's \<open>search\<close>.\<close>

record search_args =
  arg_query :: string
  arg_page :: int
  arg_page_size :: int
  arg_model_type :: "string option"
  arg_sort_by :: "string option"

text \<open>
  A model source is an external collaborator: what its methods return, or raise, is
  given. \<open>download_model\<close> takes the model id and the destination directory.
\<close>

record adapter =
  is_available :: bool
  search :: "search_args \<Rightarrow> error + search_result"
  source_get_model_info :: "string \<Rightarrow> error + model_info option"
  source_download_model :: "string \<Rightarrow> string \<Rightarrow> error + string"

text \<open>\<open>self.sources\<close>: a dict, kept in insertion (registration) order.\<close>

type_synonym gateway = "(model_source_type \<times> adapter) list"

definition empty_result :: "model_source_type \<Rightarrow> int \<Rightarrow> int \<Rightarrow> search_result" where
  "empty_result source_type pg pg_size =
     \<lparr>sr_models = [], sr_total = 0, sr_source = source_type, sr_page = pg, sr_page_size = pg_size\<rparr>"

text \<open>The inner coroutine \<open>search_source\<close>: its \<open>try\<close> block, then the whole.\<close>

definition search_source_try ::
  "gateway \<Rightarrow> search_args \<Rightarrow> model_source_type \<Rightarrow> error + (model_source_type \<times> search_result)" where
  "search_source_try gw args source_type =
     (case map_of gw source_type of
        None \<Rightarrow> Inl KeyError
      | Some src \<Rightarrow>
          if \<not> is_available src
          then Inr (source_type, empty_result source_type (arg_page args) (arg_page_size args))
          else (case search src args of
                  Inl e \<Rightarrow> Inl e
                | Inr result \<Rightarrow> Inr (source_type, result)))"

definition search_source ::
  "gateway \<Rightarrow> search_args \<Rightarrow> model_source_type \<Rightarrow> error + (model_source_type \<times> search_result)" where
  "search_source gw args source_type =
     (case search_source_try gw args source_type of
        Inl e \<Rightarrow> Inr (source_type, empty_result source_type (arg_page args) (arg_page_size args))
      | Inr r \<Rightarrow> Inr r)"

text \<open>\<open>asyncio.gather\<close>: the results in task order; an exception of a task propagates.\<close>

fun gather :: "(error + 'a) list \<Rightarrow> error + 'a list" where
  "gather [] = Inr []"
| "gather (t # ts) =
     (case t of
        Inl e \<Rightarrow> Inl e
      | Inr r \<Rightarrow> (case gather ts of Inl e \<Rightarrow> Inl e | Inr rs \<Rightarrow> Inr (r # rs)))"

text \<open>\<open>dict(pairs)\<close>: a repeated key keeps its first position and takes the last value.\<close>

definition dict_of :: "('k \<times> 'v) list \<Rightarrow> ('k \<times> 'v) list" where
  "dict_of pairs = foldl (\<lambda>d kv. AList.update (fst kv) (snd kv) d) [] pairs"

definition available_sources :: "gateway \<Rightarrow> model_source_type list option \<Rightarrow> model_source_type list" where
  "available_sources gw sources =
     (let search_sources = (case sources of
                              None \<Rightarrow> map fst gw
                            | Some l \<Rightarrow> if l = [] then map fst gw else l)
      in filter (\<lambda>s. s \<in> set (map fst gw)) search_sources)"

definition search_all ::
  "gateway \<Rightarrow> search_args \<Rightarrow> model_source_type list option
     \<Rightarrow> error + (model_source_type \<times> search_result) list" where
  "search_all gw args sources =
     (let avail = available_sources gw sources
      in if avail = [] then Inr []
         else (case gather (map (search_source gw args) avail) of
                 Inl e \<Rightarrow> Inl e
               | Inr results \<Rightarrow> Inr (dict_of results)))"

text \<open>
  \<open>list.sort(key=..., reverse=True)\<close>: a stable sort of the reversed list, reversed
  again, which is how CPython keeps equal keys in their original order.
\<close>

definition sort_reverse :: "('a \<Rightarrow> 'k::linorder) \<Rightarrow> 'a list \<Rightarrow> 'a list" where
  "sort_reverse key xs = rev (sort_key key (rev xs))"

definition or_zero :: "int option \<Rightarrow> int" where
  "or_zero v = (case v of None \<Rightarrow> 0 | Some n \<Rightarrow> n)"

definition or_empty :: "string option \<Rightarrow> string" where
  "or_empty v = (case v of None \<Rightarrow> [] | Some s \<Rightarrow> s)"

text \<open>
  \<open>str.lower()\<close>: \<open>A\<close> to \<open>Z\<close> and U+00C0 to U+00DE (but for the multiplication sign
  U+00D7) move up by 32.
\<close>

definition lower_char :: "char \<Rightarrow> char" where
  "lower_char c =
     (let k = (of_char c :: nat)
      in if (65 \<le> k \<and> k \<le> 90) \<or> (192 \<le> k \<and> k \<le> 222 \<and> k \<noteq> 215)
         then char_of (k + 32) else c)"

definition py_lower :: "string \<Rightarrow> string" where
  "py_lower s = map lower_char s"

definition unified_sort :: "string option \<Rightarrow> model_info list \<Rightarrow> model_info list" where
  "unified_sort sort_by combined_models =
     (if sort_by = Some ''downloads'' then sort_reverse (\<lambda>m. or_zero (downloads m)) combined_models
      else if sort_by = Some ''likes'' then sort_reverse (\<lambda>m. or_zero (likes m)) combined_models
      else if sort_by = Some ''updated''
        then sort_reverse (\<lambda>m. or_empty (last_updated m)) combined_models
      else if sort_by = Some ''name'' then sort_key (\<lambda>m. py_lower (model_name m)) combined_models
      else combined_models)"

definition search_unified ::
  "gateway \<Rightarrow> search_args \<Rightarrow> model_source_type list option \<Rightarrow> error + search_result" where
  "search_unified gw args sources =
     (case search_all gw
             (args\<lparr>arg_page := 1, arg_page_size := arg_page_size args * int (length gw)\<rparr>)
             sources of
        Inl e \<Rightarrow> Inl e
      | Inr all_results \<Rightarrow>
          (let combined_models = concat (map (\<lambda>kv. sr_models (snd kv)) all_results);
               total_count = sum_list (map (\<lambda>kv. sr_total (snd kv)) all_results);
               sorted_models = unified_sort (arg_sort_by args) combined_models;
               start = (arg_page args - 1) * arg_page_size args;
               stop = start + arg_page_size args
           in Inr \<lparr>sr_models = py_slice sorted_models start stop,
                   sr_total = total_count,
                   sr_source = LOCAL,
                   sr_page = arg_page args,
                   sr_page_size = arg_page_size args\<rparr>))"

text \<open>
  \<open>str.startswith\<close> and \<open>str.isdigit\<close>: a non-empty string of the digits \<open>0\<close> to \<open>9\<close>
  and the superscripts U+00B2, U+00B3 and U+00B9.
\<close>

definition startswith :: "string \<Rightarrow> string \<Rightarrow> bool" where
  "startswith s p = (take (length p) s = p)"

definition is_digit :: "char \<Rightarrow> bool" where
  "is_digit c =
     (let k = (of_char c :: nat) in (48 \<le> k \<and> k \<le> 57) \<or> k = 178 \<or> k = 179 \<or> k = 185)"

definition isdigit :: "string \<Rightarrow> bool" where
  "isdigit s = (s \<noteq> [] \<and> list_all is_digit s)"

text \<open>
  The last loop of \<open>get_model_info\<close>: every source in turn, an exception or a \<open>None\<close>
  moving on to the next.
\<close>

fun try_all_sources :: "adapter list \<Rightarrow> string \<Rightarrow> model_info option" where
  "try_all_sources [] mid = None"
| "try_all_sources (src # rest) mid =
     (case source_get_model_info src mid of
        Inr (Some info) \<Rightarrow> Some info
      | Inr None \<Rightarrow> try_all_sources rest mid
      | Inl e \<Rightarrow> try_all_sources rest mid)"

definition get_model_info ::
  "gateway \<Rightarrow> string \<Rightarrow> model_source_type option \<Rightarrow> error + model_info option" where
  "get_model_info gw mid source_type =
     (case source_type of
        Some st \<Rightarrow>
          (case map_of gw st of
             Some src \<Rightarrow> source_get_model_info src mid
           | None \<Rightarrow> Inr None)
      | None \<Rightarrow>
          (let fall_through = Inr (try_all_sources (map snd gw) mid)
           in if startswith mid ''local:'' then
                (case map_of gw LOCAL of
                   Some src \<Rightarrow> source_get_model_info src mid
                 | None \<Rightarrow> fall_through)
              else if CHR ''/'' \<in> set mid then
                (case map_of gw HUGGINGFACE of
                   Some src \<Rightarrow> source_get_model_info src mid
                 | None \<Rightarrow> fall_through)
              else if isdigit mid then
                (case map_of gw CIVITAI of
                   Some src \<Rightarrow> source_get_model_info src mid
                 | None \<Rightarrow> fall_through)
              else fall_through))"

definition download_model ::
  "gateway \<Rightarrow> string \<Rightarrow> string \<Rightarrow> model_source_type option \<Rightarrow> error + string" where
  "download_model gw mid dest_dir source_type =
     (case source_type of
        Some st \<Rightarrow>
          (case map_of gw st of
             None \<Rightarrow> Inl ValueError
           | Some src \<Rightarrow> source_download_model src mid dest_dir)
      | None \<Rightarrow>
          (if startswith mid ''local:'' then
             (case map_of gw LOCAL of
                None \<Rightarrow> Inl ValueError
              | Some src \<Rightarrow> source_download_model src mid dest_dir)
           else if CHR ''/'' \<in> set mid then
             (case map_of gw HUGGINGFACE of
                None \<Rightarrow> Inl ValueError
              | Some src \<Rightarrow> source_download_model src mid dest_dir)
           else if isdigit mid then
             (case map_of gw CIVITAI of
                None \<Rightarrow> Inl ValueError
              | Some src \<Rightarrow> source_download_model src mid dest_dir)
           else Inl ValueError))"

section \<open>Sequences of calls and auxiliary notions\<close>

text \<open>
  One request to the memory service: the summarizer and the database behaviour it meets,
  the session id and the message list. A session's life is a list of such requests.
\<close>

type_synonym call = "summarizer \<times> faults \<times> string \<times> message list"

fun apply_call :: "store \<Rightarrow> call \<Rightarrow> store" where
  "apply_call st (summarize, f, session_id, msgs) =
     snd (message_memory_optimize summarize f session_id msgs st)"

fun run_calls :: "store \<Rightarrow> call list \<Rightarrow> store" where
  "run_calls st [] = st"
| "run_calls st (c # cs) = run_calls (apply_call st c) cs"

text \<open>The caller never hands in a list shorter than what the session has already compacted.\<close>

fun covers_index :: "store \<Rightarrow> call \<Rightarrow> bool" where
  "covers_index st (summarize, f, session_id, msgs) =
     (case st session_id of None \<Rightarrow> True | Some r \<Rightarrow> index r \<le> int (length msgs))"

fun admissible :: "store \<Rightarrow> call list \<Rightarrow> bool" where
  "admissible st [] = True"
| "admissible st (c # cs) = (covers_index st c \<and> admissible (apply_call st c) cs)"

definition index_nonneg :: "store \<Rightarrow> bool" where
  "index_nonneg st = (\<forall>k r. st k = Some r \<longrightarrow> 0 \<le> index r)"

definition index_in_range :: "store \<Rightarrow> bool" where
  "index_in_range st =
     (\<forall>k r. st k = Some r \<longrightarrow> 0 \<le> index r \<and> index r \<le> int (length (messages r)))"

text \<open>What \<open>search_source\<close> hands back for one source.\<close>

definition source_outcome ::
  "gateway \<Rightarrow> search_args \<Rightarrow> model_source_type \<Rightarrow> model_source_type \<times> search_result" where
  "source_outcome gw args st =
     (case search_source_try gw args st of
        Inl e \<Rightarrow> (st, empty_result st (arg_page args) (arg_page_size args))
      | Inr r \<Rightarrow> r)"

section \<open>Example inputs\<close>

definition msg :: "string \<Rightarrow> message" where
  "msg t = \<lparr>role = Some ''user'', content = Text t\<rparr>"

definition roleless :: "string \<Rightarrow> message" where
  "roleless t = \<lparr>role = None, content = Text t\<rparr>"

definition eight_messages :: "message list" where
  "eight_messages =
     [msg ''m1'', msg ''m2'', msg ''m3'', msg ''m4'', msg ''m5'', msg ''m6'', msg ''m7'', msg ''m8'']"

definition nine_messages :: "message list" where
  "nine_messages = eight_messages @ [msg ''m9'']"

text \<open>
  A model that answers \<open>recap\<close>, one that answers with an empty summary, one that is
  down, and one without structured outputs whose plain completion is down as well.
\<close>

definition recap_llm :: llm where
  "recap_llm = \<lparr>chat_parse = (\<lambda>_ _. Parsed (Some ''recap'')), chat_create = (\<lambda>_ _. Created None)\<rparr>"

definition silent_llm :: llm where
  "silent_llm = \<lparr>chat_parse = (\<lambda>_ _. Parsed (Some [])), chat_create = (\<lambda>_ _. Created None)\<rparr>"

text \<open>A model whose summary is a no-break space and a next-line character.\<close>

definition blank_llm :: llm where
  "blank_llm =
     \<lparr>chat_parse = (\<lambda>_ _. Parsed (Some [CHR 0xA0, CHR 0x85])),
      chat_create = (\<lambda>_ _. Created None)\<rparr>"

definition broken_llm :: llm where
  "broken_llm =
     \<lparr>chat_parse = (\<lambda>_ _. ParseRaises NetworkError), chat_create = (\<lambda>_ _. CreateRaises NetworkError)\<rparr>"

definition plain_llm :: llm where
  "plain_llm =
     \<lparr>chat_parse = (\<lambda>_ _. NoneTypeNotIterable), chat_create = (\<lambda>_ _. CreateRaises NetworkError)\<rparr>"

definition raising_summarizer :: summarizer where
  "raising_summarizer = (\<lambda>_ _. Inl OtherError)"

definition update_fault :: faults where
  "update_fault = (\<lambda>op. op = OpUpdate)"

definition get_fault :: faults where
  "get_fault = (\<lambda>op. op = OpGet)"

text \<open>A session that exists, with nothing compacted yet.\<close>

definition started_store :: store where
  "started_store = [''s'' \<mapsto> \<lparr>messages = [], index = 0, summary = None\<rparr>]"

definition growing_calls :: "call list" where
  "growing_calls =
     [(generate_summary recap_llm, no_faults, ''s'', eight_messages),
      (generate_summary recap_llm, no_faults, ''s'', nine_messages),
      (generate_summary recap_llm, no_faults, ''s'', nine_messages)]"

definition shrinking_calls :: "call list" where
  "shrinking_calls =
     [(generate_summary recap_llm, no_faults, ''s'', nine_messages),
      (generate_summary recap_llm, no_faults, ''s'', nine_messages),
      (generate_summary recap_llm, no_faults, ''s'', [msg ''m1'', msg ''m2''])]"

text \<open>
  A download of 128 bytes registered at time 0. The examples use byte counts and times
  whose quotients are all dyadic, so that no float operation in them rounds: the rounding
  is the identity there.
\<close>

definition no_rounding :: rounding where
  "no_rounding = (\<lambda>x. x)"

definition demo_download :: "callback \<times> registry" where
  "demo_download = callback_init 0 ''m1'' ''model.bin'' 128 ''d1'' Map.empty"

text \<open>Two healthy catalogues with three and two models, and one whose search raises.\<close>

definition model :: "string \<Rightarrow> model_source_type \<Rightarrow> int option \<Rightarrow> model_info" where
  "model ident src dl =
     \<lparr>model_id = ident, model_name = ident, model_source = src, downloads = dl, likes = None,
      last_updated = None\<rparr>"

definition hub_adapter :: adapter where
  "hub_adapter =
     \<lparr>is_available = True,
      search = (\<lambda>args. Inr \<lparr>sr_models = [model ''org/a'' HUGGINGFACE (Some 5),
                                            model ''org/b'' HUGGINGFACE None,
                                            model ''org/c'' HUGGINGFACE (Some 9)],
                              sr_total = 3, sr_source = HUGGINGFACE,
                              sr_page = arg_page args, sr_page_size = arg_page_size args\<rparr>),
      source_get_model_info = (\<lambda>mid. if mid = ''org/a'' then Inr (Some (model ''org/a'' HUGGINGFACE (Some 5)))
                                       else Inr None),
      source_download_model = (\<lambda>mid dest. Inr (dest @ ''/hub''))\<rparr>"

definition numeric_adapter :: adapter where
  "numeric_adapter =
     \<lparr>is_available = True,
      search = (\<lambda>args. Inr \<lparr>sr_models = [model ''11'' CIVITAI (Some 5),
                                            model ''12'' CIVITAI (Some 7)],
                              sr_total = 2, sr_source = CIVITAI,
                              sr_page = arg_page args, sr_page_size = arg_page_size args\<rparr>),
      source_get_model_info = (\<lambda>mid. if mid = ''flux'' then Inr (Some (model ''flux'' CIVITAI (Some 7)))
                                       else Inl NetworkError),
      source_download_model = (\<lambda>mid dest. Inr (dest @ ''/numeric''))\<rparr>"


definition local_adapter :: adapter where
  "local_adapter =
     \<lparr>is_available = True,
      search = (\<lambda>args. Inr (empty_result LOCAL (arg_page args) (arg_page_size args))),
      source_get_model_info = (\<lambda>mid. Inr None),
      source_download_model = (\<lambda>mid dest. Inr mid)\<rparr>"

definition two_catalogues :: gateway where
  "two_catalogues = [(HUGGINGFACE, hub_adapter), (CIVITAI, numeric_adapter)]"


definition three_sources :: gateway where
  "three_sources = [(HUGGINGFACE, hub_adapter), (CIVITAI, numeric_adapter), (LOCAL, local_adapter)]"

definition by_downloads :: search_args where
  "by_downloads =
     \<lparr>arg_query = ''sd'', arg_page = 1, arg_page_size = 3, arg_model_type = None,
      arg_sort_by = Some ''downloads''\<rparr>"

section \<open>Facts about the summary agent and the compactor\<close>

lemma generate_summary_returns: "\<exists>s. generate_summary env msgs prev = Inr s"
  by (simp add: generate_summary_def split: sum.splits)

lemma fallback_shape:
  "\<exists>pre. fallback_summary msgs prev
           = pre @ ''Conversation with '' @ str_nat (length msgs) @ '' messages''"
  by (simp add: fallback_summary_def Let_def)

lemma fallback_nonempty: "fallback_summary msgs prev \<noteq> []"
  by (simp add: fallback_summary_def Let_def)

text \<open>The conversation text cannot be built exactly when a text message has no role.\<close>

lemma format_all_raises:
  "(\<exists>e. format_all ms = Inl e) \<longleftrightarrow> (\<exists>m \<in> set ms. role m = None)"
  by (induction ms) (auto simp: format_message_def split: sum.splits option.splits msg_content.splits)

lemma messages_text_raises:
  "(\<exists>e. messages_text msgs = Inl e) \<longleftrightarrow> (\<exists>m \<in> set msgs. has_text m \<and> role m = None)"
proof -
  have "(\<exists>e. messages_text msgs = Inl e) \<longleftrightarrow> (\<exists>e. format_all (filter has_text msgs) = Inl e)"
    by (auto simp: messages_text_def split: sum.splits)
  then show ?thesis by (auto simp: format_all_raises)
qed

lemma slice_bound_nonneg: "0 \<le> i \<Longrightarrow> slice_bound n i = min (nat i) n"
  by (simp add: slice_bound_def)

lemma record_overwrite:
  "r\<lparr>messages := m, index := i, summary := s\<rparr> = \<lparr>messages = m, index = i, summary = s\<rparr>"
  by (cases r) simp

lemma record_resummarised:
  "r\<lparr>summary := s, index := i\<rparr> = \<lparr>messages = messages r, index = i, summary = s\<rparr>"
  by (cases r) simp

lemma save_session_message_eq:
  "save_session_message f sid msgs idx summ st =
     (if f OpSave then Inl DatabaseError
      else Inr (st(sid \<mapsto> \<lparr>messages = msgs, index = idx, summary = summ\<rparr>)))"
  by (cases "st sid") (simp_all add: save_session_message_def record_overwrite)

lemmas mmo_defs = message_memory_optimize_def message_memory_optimize_try_def
  get_session_message_def save_session_message_eq update_summary_def record_resummarised
  COMPRESSION_THRESHOLD_def KEEP_RECENT_MESSAGES_def Let_def

text \<open>The paths through \<open>message_memory_optimize\<close>, one lemma each.\<close>

lemma mmo_get_fault: "f OpGet \<Longrightarrow> message_memory_optimize summarize f sid msgs st = (msgs, st)"
  by (simp add: mmo_defs)

lemma mmo_save_fault: "f OpSave \<Longrightarrow> message_memory_optimize summarize f sid msgs st = (msgs, st)"
  by (simp add: mmo_defs split: option.splits)

lemma mmo_new:
  "\<not> f OpGet \<Longrightarrow> \<not> f OpSave \<Longrightarrow> st sid = None \<Longrightarrow>
   message_memory_optimize summarize f sid msgs st =
     (msgs, st(sid \<mapsto> \<lparr>messages = msgs, index = 0, summary = None\<rparr>))"
  by (simp add: mmo_defs)

lemma mmo_below_threshold:
  "\<not> f OpGet \<Longrightarrow> \<not> f OpSave \<Longrightarrow> st sid = Some r \<Longrightarrow> int (length msgs) - index r \<le> 8 \<Longrightarrow>
   message_memory_optimize summarize f sid msgs st =
     (build_optimized_messages (summary r) msgs (index r),
      st(sid \<mapsto> \<lparr>messages = msgs, index = index r, summary = summary r\<rparr>))"
  by (simp add: mmo_defs)

lemma mmo_summarizer_raises:
  "\<not> f OpGet \<Longrightarrow> \<not> f OpSave \<Longrightarrow> st sid = Some r \<Longrightarrow> 8 < int (length msgs) - index r \<Longrightarrow>
   summarize (py_slice msgs (index r) (int (length msgs) - 4)) (summary r) = Inl e \<Longrightarrow>
   message_memory_optimize summarize f sid msgs st =
     (msgs, st(sid \<mapsto> \<lparr>messages = msgs, index = index r, summary = summary r\<rparr>))"
  by (simp add: mmo_defs)

lemma mmo_update_fault:
  "\<not> f OpGet \<Longrightarrow> \<not> f OpSave \<Longrightarrow> f OpUpdate \<Longrightarrow> st sid = Some r \<Longrightarrow>
   8 < int (length msgs) - index r \<Longrightarrow>
   summarize (py_slice msgs (index r) (int (length msgs) - 4)) (summary r) = Inr s \<Longrightarrow>
   message_memory_optimize summarize f sid msgs st =
     (msgs, st(sid \<mapsto> \<lparr>messages = msgs, index = index r, summary = summary r\<rparr>))"
  by (simp add: mmo_defs)

lemma mmo_compacts:
  "\<not> f OpGet \<Longrightarrow> \<not> f OpSave \<Longrightarrow> \<not> f OpUpdate \<Longrightarrow> st sid = Some r \<Longrightarrow>
   8 < int (length msgs) - index r \<Longrightarrow>
   summarize (py_slice msgs (index r) (int (length msgs) - 4)) (summary r) = Inr s \<Longrightarrow>
   message_memory_optimize summarize f sid msgs st =
     (build_optimized_messages (Some s) msgs (int (length msgs) - 4),
      st(sid \<mapsto> \<lparr>messages = msgs, index = int (length msgs) - 4, summary = Some s\<rparr>))"
  by (simp add: mmo_defs)

lemma build_no_summary: "build_optimized_messages None msgs 0 = msgs"
  by (simp add: build_optimized_messages_def truthy_def py_slice_from_def slice_bound_def)

text \<open>Every call leaves the table in one of four shapes.\<close>

lemma mmo_store_cases:
  "snd (message_memory_optimize summarize f sid msgs st) = st
   \<or> (st sid = None
        \<and> snd (message_memory_optimize summarize f sid msgs st)
            = st(sid \<mapsto> \<lparr>messages = msgs, index = 0, summary = None\<rparr>))
   \<or> (\<exists>r. st sid = Some r
        \<and> snd (message_memory_optimize summarize f sid msgs st)
            = st(sid \<mapsto> \<lparr>messages = msgs, index = index r, summary = summary r\<rparr>))
   \<or> (\<exists>r s. st sid = Some r \<and> 8 < int (length msgs) - index r
        \<and> snd (message_memory_optimize summarize f sid msgs st)
            = st(sid \<mapsto> \<lparr>messages = msgs, index = int (length msgs) - 4, summary = Some s\<rparr>))"
proof (cases "f OpGet \<or> f OpSave")
  case True
  then show ?thesis using mmo_get_fault mmo_save_fault by (metis snd_conv)
next
  case nf: False
  show ?thesis
  proof (cases "st sid")
    case None
    then show ?thesis using nf by (simp add: mmo_new)
  next
    case (Some r)
    show ?thesis
    proof (cases "int (length msgs) - index r \<le> 8")
      case True
      then show ?thesis using nf Some by (simp add: mmo_below_threshold)
    next
      case False
      then have big: "8 < int (length msgs) - index r" by simp
      show ?thesis
      proof (cases "summarize (py_slice msgs (index r) (int (length msgs) - 4)) (summary r)")
        case (Inl e)
        then show ?thesis using nf Some big by (simp add: mmo_summarizer_raises)
      next
        case (Inr s)
        show ?thesis
        proof (cases "f OpUpdate")
          case True
          then show ?thesis using nf Some big Inr by (simp add: mmo_update_fault)
        next
          case False
          then have "snd (message_memory_optimize summarize f sid msgs st)
              = st(sid \<mapsto> \<lparr>messages = msgs, index = int (length msgs) - 4, summary = Some s\<rparr>)"
            using nf Some big Inr by (simp add: mmo_compacts)
          with Some big show ?thesis by blast
        qed
      qed
    qed
  qed
qed

lemma apply_call_index_mono:
  assumes "st k = Some r"
  shows "\<exists>r'. apply_call st c k = Some r' \<and> index r \<le> index r'"
proof -
  obtain summarize f sid msgs where c: "c = (summarize, f, sid, msgs)"
    by (cases c) auto
  show ?thesis
    using mmo_store_cases [of summarize f sid msgs st] assms
    by (cases "k = sid") (auto simp: c)
qed

lemma run_calls_index_mono:
  "st k = Some r \<Longrightarrow> \<exists>r'. run_calls st cs k = Some r' \<and> index r \<le> index r'"
proof (induction cs arbitrary: st r)
  case Nil
  then show ?case by simp
next
  case (Cons c cs)
  from apply_call_index_mono [of st k r c] Cons.prems
  obtain r1 where r1: "apply_call st c k = Some r1" "index r \<le> index r1" by blast
  from Cons.IH [of "apply_call st c" r1] r1(1)
  obtain r2 where "run_calls (apply_call st c) cs k = Some r2" "index r1 \<le> index r2"
    by blast
  with r1 show ?case by auto
qed

lemma apply_call_shapes:
  obtains (same) "apply_call st (summarize, f, sid, msgs) = st"
  | (created) "st sid = None"
      "apply_call st (summarize, f, sid, msgs)
         = st(sid \<mapsto> \<lparr>messages = msgs, index = 0, summary = None\<rparr>)"
  | (saved) r where "st sid = Some r"
      "apply_call st (summarize, f, sid, msgs)
         = st(sid \<mapsto> \<lparr>messages = msgs, index = index r, summary = summary r\<rparr>)"
  | (compacted) r s where "st sid = Some r" "8 < int (length msgs) - index r"
      "apply_call st (summarize, f, sid, msgs)
         = st(sid \<mapsto> \<lparr>messages = msgs, index = int (length msgs) - 4, summary = Some s\<rparr>)"
  using mmo_store_cases [of summarize f sid msgs st] unfolding apply_call.simps by fast

lemma apply_call_nonneg:
  assumes a: "index_nonneg st"
  shows "index_nonneg (apply_call st c)"
  unfolding index_nonneg_def
proof (intro allI impI)
  fix k r'
  assume new: "apply_call st c k = Some r'"
  obtain summarize f sid msgs where c: "c = (summarize, f, sid, msgs)"
    by (cases c) auto
  show "0 \<le> index r'"
  proof (cases rule: apply_call_shapes [of st summarize f sid msgs])
    case same
    with new a show ?thesis by (simp add: index_nonneg_def c)
  next
    case created
    with new a show ?thesis by (auto simp: index_nonneg_def c split: if_splits)
  next
    case (saved r)
    with new a show ?thesis by (auto simp: index_nonneg_def c split: if_splits)
  next
    case (compacted r s)
    from a compacted(1) have nn: "0 \<le> index r" by (simp add: index_nonneg_def)
    show ?thesis
    proof (cases "k = sid")
      case True
      with compacted new nn show ?thesis by (auto simp: c)
    next
      case False
      with compacted new a show ?thesis by (simp add: index_nonneg_def c)
    qed
  qed
qed

lemma apply_call_in_range:
  assumes a: "index_in_range st" and b: "covers_index st c"
  shows "index_in_range (apply_call st c)"
  unfolding index_in_range_def
proof (intro allI impI)
  fix k r'
  assume new: "apply_call st c k = Some r'"
  obtain summarize f sid msgs where c: "c = (summarize, f, sid, msgs)"
    by (cases c) auto
  show "0 \<le> index r' \<and> index r' \<le> int (length (messages r'))"
  proof (cases rule: apply_call_shapes [of st summarize f sid msgs])
    case same
    with new a show ?thesis by (simp add: index_in_range_def c)
  next
    case created
    with new a show ?thesis by (auto simp: index_in_range_def c split: if_splits)
  next
    case (saved r)
    from a saved(1) have "0 \<le> index r" by (simp add: index_in_range_def)
    moreover from b saved(1) have "index r \<le> int (length msgs)" by (simp add: c)
    ultimately show ?thesis
      using saved new a by (auto simp: index_in_range_def c split: if_splits)
  next
    case (compacted r s)
    from a compacted(1) have nn: "0 \<le> index r" by (simp add: index_in_range_def)
    show ?thesis
    proof (cases "k = sid")
      case True
      with compacted new nn show ?thesis by (auto simp: c)
    next
      case False
      with compacted new a show ?thesis by (simp add: index_in_range_def c)
    qed
  qed
qed

lemma run_calls_nonneg: "index_nonneg st \<Longrightarrow> index_nonneg (run_calls st cs)"
  by (induction cs arbitrary: st) (auto intro: apply_call_nonneg)

lemma run_calls_in_range:
  "index_in_range st \<Longrightarrow> admissible st cs \<Longrightarrow> index_in_range (run_calls st cs)"
  by (induction cs arbitrary: st) (auto intro: apply_call_in_range)

section \<open>Facts about download progress\<close>

lemma round_half_even_mono:
  assumes "x \<le> y"
  shows "round_half_even x \<le> round_half_even y"
proof (cases "\<lfloor>x\<rfloor> = \<lfloor>y\<rfloor>")
  case True
  then show ?thesis using assms
    unfolding round_half_even_def Let_def by auto
next
  case False
  with assms have lt: "\<lfloor>x\<rfloor> < \<lfloor>y\<rfloor>" by (simp add: floor_mono le_neq_trans)
  have "round_half_even x \<le> \<lfloor>x\<rfloor> + 1"
    unfolding round_half_even_def Let_def by auto
  moreover have "\<lfloor>y\<rfloor> \<le> round_half_even y"
    unfolding round_half_even_def Let_def by auto
  ultimately show ?thesis using lt by linarith
qed

lemma py_round2_mono:
  assumes "mono rnd" "x \<le> y"
  shows "py_round2 rnd x \<le> py_round2 rnd y"
proof -
  have "(of_int (round_half_even (x * 100)) :: rat) / 100 \<le> of_int (round_half_even (y * 100)) / 100"
    using assms(2) by (simp add: round_half_even_mono divide_right_mono)
  with assms(1) show ?thesis unfolding py_round2_def by (rule monoD)
qed

lemma recorded_percentage_mono:
  assumes m: "mono rnd" and le: "p \<le> q"
  shows "recorded_percentage rnd p fs \<le> recorded_percentage rnd q fs"
proof (cases "fs > 0")
  case True
  have "(of_int p :: rat) / of_int fs \<le> of_int q / of_int fs"
    using le True by (simp add: divide_right_mono)
  with m have "rnd (of_int p / of_int fs) \<le> rnd (of_int q / of_int fs)" by (rule monoD)
  then have "rnd (of_int p / of_int fs) * 100 \<le> rnd (of_int q / of_int fs) * 100" by simp
  with m have "rnd (rnd (of_int p / of_int fs) * 100) \<le> rnd (rnd (of_int q / of_int fs) * 100)"
    by (rule monoD)
  with m True show ?thesis by (simp add: recorded_percentage_def py_round2_mono)
next
  case False
  then show ?thesis by (simp add: recorded_percentage_def)
qed

lemma callback_update_self:
  "fst (callback_update rnd now sz (cb, reg)) = cb\<lparr>self_progress := self_progress cb + sz\<rparr>"
  by (simp add: callback_update_def Let_def split: option.splits)

lemma callback_update_record:
  assumes "reg (self_download_id cb) = Some r"
  shows "\<exists>r'. snd (callback_update rnd now sz (cb, reg)) (self_download_id cb) = Some r'
           \<and> progress r' = self_progress cb + sz
           \<and> percentage r' = recorded_percentage rnd (self_progress cb + sz) (self_file_size cb)
           \<and> speed r' = recorded_speed rnd (self_progress cb + sz) (rnd (now - self_start_time cb))
           \<and> estimated_time r'
               = recorded_estimate rnd (self_progress cb + sz) (self_file_size cb)
                   (rnd (now - self_start_time cb))
           \<and> status r' = status r \<and> error_message r' = error_message r
           \<and> total_time r' = total_time r \<and> file_size r' = file_size r"
  using assms by (simp add: callback_update_def Let_def)

lemma callback_end_record:
  assumes "reg (self_download_id cb) = Some r"
    and "callback_end rnd now success err (cb, reg) = (Inr (), cb', reg')"
  shows "self_progress cb' = self_progress cb \<and> self_download_id cb' = self_download_id cb
         \<and> self_file_size cb' = self_file_size cb \<and> self_start_time cb' = self_start_time cb
         \<and> (\<exists>r'. reg' (self_download_id cb) = Some r' \<and> progress r' = self_progress cb
                \<and> status r' = (if success then Completed else Failed))"
  using assms by (auto simp: callback_end_def Let_def split: if_splits)

section \<open>Facts about the gateway\<close>

lemma search_source_returns:
  "search_source gw args st = Inr (source_outcome gw args st)"
  by (simp add: search_source_def source_outcome_def split: sum.splits)


lemma gather_all_return:
  "gather (map (\<lambda>x. Inr (g x)) xs) = Inr (map g xs)"
  by (induction xs) simp_all






lemma search_all_eq:
  "search_all gw args sources
     = Inr (dict_of (map (source_outcome gw args) (available_sources gw sources)))"
proof -
  have "search_source gw args = (\<lambda>x. Inr (source_outcome gw args x))"
    by (rule ext) (simp add: search_source_returns)
  then have "gather (map (search_source gw args) (available_sources gw sources))
      = Inr (map (source_outcome gw args) (available_sources gw sources))"
    by (simp add: gather_all_return)
  then show ?thesis
    by (simp add: search_all_def Let_def dict_of_def)
qed

lemma sort_reverse_mset: "mset (sort_reverse key xs) = mset xs"
  by (simp add: sort_reverse_def)

lemma sort_reverse_descending:
  "sorted_wrt (\<lambda>a b. key b \<le> key a) (sort_reverse key xs)"
proof -
  have "sorted (map key (sort_key key (rev xs)))" by (rule sorted_sort_key)
  then have "sorted_wrt (\<lambda>a b. key a \<le> key b) (sort_key key (rev xs))"
    by (simp add: sorted_wrt_map)
  then show ?thesis
    by (simp add: sort_reverse_def sorted_wrt_rev)
qed

lemma sort_reverse_stable:
  "filter (\<lambda>x. key x = k) (sort_reverse key xs) = filter (\<lambda>x. key x = k) xs"
proof -
  have "filter (\<lambda>x. key x = k) (sort_key key (rev xs)) = filter (\<lambda>x. key x = k) (rev xs)"
    by (rule sort_key_stable)
  then have "rev (filter (\<lambda>x. key x = k) (sort_key key (rev xs))) = filter (\<lambda>x. key x = k) xs"
    by (simp add: rev_filter)
  then show ?thesis by (simp add: sort_reverse_def rev_filter)
qed

lemma py_slice_page:
  assumes "1 \<le> p" "0 \<le> n"
  shows "py_slice xs ((p - 1) * n) (p * n) = take (nat n) (drop (nat ((p - 1) * n)) xs)"
proof -
  have a: "0 \<le> (p - 1) * n" using assms by simp
  have e: "p * n = (p - 1) * n + n" by (simp add: algebra_simps)
  have b: "0 \<le> (p - 1) * n + n" using assms by simp
  have c: "nat ((p - 1) * n + n) = nat ((p - 1) * n) + nat n"
    using assms a by (simp add: nat_add_distrib)
  show ?thesis
    using a b unfolding py_slice_def Let_def slice_bound_def e
    by (auto simp: c min_def not_le take_all)
qed

lemma try_all_sources_find:
  "try_all_sources srcs mid =
     (case find (\<lambda>s. \<exists>info. source_get_model_info s mid = Inr (Some info)) srcs of
        None \<Rightarrow> None
      | Some s \<Rightarrow> (case source_get_model_info s mid of Inr info \<Rightarrow> info | Inl e \<Rightarrow> None))"
  by (induction srcs) (auto split: sum.splits option.splits)

section \<open>Unfolding the examples\<close>

lemmas example_defs = msg_def eight_messages_def nine_messages_def started_store_def
  recap_llm_def silent_llm_def broken_llm_def blank_llm_def

lemmas eval_defs = mmo_defs no_faults_def generate_summary_def generate_summary_try_def
  messages_text_def has_text_def format_message_def truthy_def build_optimized_messages_def
  py_slice_def py_slice_from_def slice_bound_def py_strip_def is_space_def

lemmas dl_defs = demo_download_def no_rounding_def callback_init_def callback_update_def
  callback_end_def recorded_percentage_def recorded_speed_def recorded_estimate_def
  update_speed_def Let_def

section \<open>Threshold behaviour of the compactor\<close>

text \<open>
  Claim C1, as amended. A session is stored with \<open>index = 0\<close> and no summary, and no
  database call fails. With exactly 8 messages nothing is compacted: the caller's list
  comes back and the row keeps index 0 and no summary. With 9 messages compaction runs:
  \<open>generate_summary\<close> is given \<open>messages[0:5]\<close> and no previous summary, the row gets
  index 5 and the new summary, and the view is \<open>messages[5:9]\<close> (four messages),
  preceded by the one context message when the summary has a non-blank character,
  and on its own when the summary is empty or blank.
\<close>

theorem threshold_behaviour:
  assumes "st sid = Some r" "index r = 0" "summary r = None"
  shows "(length msgs = 8 \<longrightarrow>
           message_memory_optimize (generate_summary env) no_faults sid msgs st
             = (msgs, st(sid \<mapsto> \<lparr>messages = msgs, index = 0, summary = None\<rparr>)))
       \<and> (length msgs = 9 \<longrightarrow>
           length (py_slice msgs 5 9) = 4
           \<and> (\<exists>s. generate_summary env (py_slice msgs 0 5) None = Inr s
                \<and> message_memory_optimize (generate_summary env) no_faults sid msgs st
                  = (if py_strip s = [] then py_slice msgs 5 9
                     else summary_context s # py_slice msgs 5 9,
                     st(sid \<mapsto> \<lparr>messages = msgs, index = 5, summary = Some s\<rparr>))))"
proof (intro conjI impI)
  assume "length msgs = 8"
  with assms show "message_memory_optimize (generate_summary env) no_faults sid msgs st
             = (msgs, st(sid \<mapsto> \<lparr>messages = msgs, index = 0, summary = None\<rparr>))"
    using mmo_below_threshold [of no_faults st sid r msgs "generate_summary env"]
    by (simp add: no_faults_def build_no_summary)
next
  assume len: "length msgs = 9"
  then show "length (py_slice msgs 5 9) = 4"
    by (simp add: py_slice_def slice_bound_nonneg)
next
  assume len: "length msgs = 9"
  obtain s where s: "generate_summary env (py_slice msgs 0 5) None = Inr s"
    using generate_summary_returns by blast
  have tail: "py_slice msgs 5 9 = drop 5 msgs"
    using len by (simp add: py_slice_def slice_bound_nonneg)
  have strip: "py_strip s \<noteq> [] \<Longrightarrow> s \<noteq> []" by (auto simp: py_strip_def)
  have view: "build_optimized_messages (Some s) msgs 5
        = (if py_strip s = [] then py_slice msgs 5 9 else summary_context s # py_slice msgs 5 9)"
    using len strip
    by (simp add: tail build_optimized_messages_def truthy_def py_slice_from_def slice_bound_nonneg)
  have "message_memory_optimize (generate_summary env) no_faults sid msgs st
          = (if py_strip s = [] then py_slice msgs 5 9 else summary_context s # py_slice msgs 5 9,
             st(sid \<mapsto> \<lparr>messages = msgs, index = 5, summary = Some s\<rparr>))"
    using mmo_compacts [of no_faults st sid r msgs "generate_summary env" s] assms len s view
    by (simp add: no_faults_def)
  with s show "\<exists>s. generate_summary env (py_slice msgs 0 5) None = Inr s
                \<and> message_memory_optimize (generate_summary env) no_faults sid msgs st
                  = (if py_strip s = [] then py_slice msgs 5 9
                     else summary_context s # py_slice msgs 5 9,
                     st(sid \<mapsto> \<lparr>messages = msgs, index = 5, summary = Some s\<rparr>))"
    by blast
qed

text \<open>
  The session \<open>s\<close> exists with index 0: eight messages come back as they are, nine are
  compacted to a context message and the last four, and with an empty summary, or one
  made of a no-break space and a next-line character, to the last four alone.
\<close>

theorem threshold_behaviour_witness:
  "started_store ''s'' = Some \<lparr>messages = [], index = 0, summary = None\<rparr>
   \<and> length eight_messages = 8 \<and> length nine_messages = 9
   \<and> fst (message_memory_optimize (generate_summary recap_llm) no_faults ''s'' eight_messages started_store)
       = eight_messages
   \<and> fst (message_memory_optimize (generate_summary recap_llm) no_faults ''s'' nine_messages started_store)
       = [summary_context ''recap'', msg ''m6'', msg ''m7'', msg ''m8'', msg ''m9'']
   \<and> fst (message_memory_optimize (generate_summary silent_llm) no_faults ''s'' nine_messages started_store)
       = [msg ''m6'', msg ''m7'', msg ''m8'', msg ''m9'']
   \<and> fst (message_memory_optimize (generate_summary blank_llm) no_faults ''s'' nine_messages started_store)
       = [msg ''m6'', msg ''m7'', msg ''m8'', msg ''m9'']"
proof -
  have h: "started_store ''s'' = Some \<lparr>messages = [], index = 0, summary = None\<rparr>"
    by (simp add: started_store_def)
  have l8: "length eight_messages = 8" by (simp add: eight_messages_def)
  have l9: "length nine_messages = 9" by (simp add: nine_messages_def eight_messages_def)
  have mt: "messages_text (py_slice nine_messages 0 5) \<noteq> Inl e" for e
    by (simp add: messages_text_def py_slice_def slice_bound_def example_defs has_text_def format_message_def)
  have g1: "generate_summary recap_llm (py_slice nine_messages 0 5) None = Inr ''recap''"
    using mt by (simp add: generate_summary_def generate_summary_try_def recap_llm_def truthy_def split: sum.splits)
  have g2: "generate_summary silent_llm (py_slice nine_messages 0 5) None = Inr []"
    using mt by (simp add: generate_summary_def generate_summary_try_def silent_llm_def truthy_def split: sum.splits)
  have s59: "py_slice nine_messages 5 9 = [msg ''m6'', msg ''m7'', msg ''m8'', msg ''m9'']"
    by (simp add: py_slice_def slice_bound_def nine_messages_def eight_messages_def)
  have st1: "py_strip ''recap'' \<noteq> []" by (simp add: py_strip_def is_space_def)
  have st2: "py_strip [] = []" by (simp add: py_strip_def)
  have g3: "generate_summary blank_llm (py_slice nine_messages 0 5) None = Inr [CHR 0xA0, CHR 0x85]"
    using mt by (simp add: generate_summary_def generate_summary_try_def blank_llm_def truthy_def split: sum.splits)
  have st3: "py_strip [CHR 0xA0, CHR 0x85] = []" by code_simp
  show ?thesis
    using threshold_behaviour [of started_store "''s''" "\<lparr>messages = [], index = 0, summary = None\<rparr>" eight_messages recap_llm]
      threshold_behaviour [of started_store "''s''" "\<lparr>messages = [], index = 0, summary = None\<rparr>" nine_messages recap_llm]
      threshold_behaviour [of started_store "''s''" "\<lparr>messages = [], index = 0, summary = None\<rparr>" nine_messages silent_llm]
      threshold_behaviour [of started_store "''s''" "\<lparr>messages = [], index = 0, summary = None\<rparr>" nine_messages blank_llm]
      h l8 l9 g1 g2 g3 s59 st1 st2 st3
    by simp
qed

text \<open>
  As first stated the claim promises a context message whenever nine messages are
  compacted. When the model answers with an empty summary the view is \<open>messages[5:9]\<close>
  alone, four messages, although the index has moved to 5.
\<close>

theorem empty_summary_drops_context:
  "index (the (started_store ''s'')) = 0 \<and> summary (the (started_store ''s'')) = None
   \<and> length nine_messages = 9
   \<and> fst (message_memory_optimize (generate_summary silent_llm) no_faults ''s'' nine_messages started_store)
       = py_slice nine_messages 5 9
   \<and> length (fst (message_memory_optimize (generate_summary silent_llm) no_faults ''s'' nine_messages started_store)) = 4
   \<and> index (the (snd (message_memory_optimize (generate_summary silent_llm) no_faults ''s'' nine_messages started_store) ''s'')) = 5"
  apply (simp add: example_defs mmo_defs no_faults_def generate_summary_def generate_summary_try_def messages_text_def has_text_def format_message_def truthy_def build_optimized_messages_def py_slice_def py_slice_from_def slice_bound_def)
  done


section \<open>The compaction index over a session's life\<close>

text \<open>
  Claim C2, as amended. Starting from the empty table, after any sequence of calls the
  stored index of every session is at least 0. It is at most the length of the stored
  message list provided no call handed in a list shorter than the index stored at that
  moment (in particular when lists only grow). From any table and along any sequence of
  calls, a session's row stays and its index never decreases.
\<close>

theorem compacted_index_invariant:
  "(run_calls Map.empty cs k = Some r \<longrightarrow> 0 \<le> index r)
   \<and> (admissible Map.empty cs \<and> run_calls Map.empty cs k = Some r
        \<longrightarrow> index r \<le> int (length (messages r)))
   \<and> (st k = Some r0 \<longrightarrow> (\<exists>r1. run_calls st cs' k = Some r1 \<and> index r0 \<le> index r1))"
proof (intro conjI impI)
  have "index_nonneg Map.empty" by (simp add: index_nonneg_def)
  then have "index_nonneg (run_calls Map.empty cs)" by (rule run_calls_nonneg)
  then show "run_calls Map.empty cs k = Some r \<Longrightarrow> 0 \<le> index r"
    by (simp add: index_nonneg_def)
next
  assume h: "admissible Map.empty cs \<and> run_calls Map.empty cs k = Some r"
  have "index_in_range Map.empty" by (simp add: index_in_range_def)
  with h have "index_in_range (run_calls Map.empty cs)" by (simp add: run_calls_in_range)
  with h show "index r \<le> int (length (messages r))" unfolding index_in_range_def by blast
next
  assume "st k = Some r0"
  then show "\<exists>r1. run_calls st cs' k = Some r1 \<and> index r0 \<le> index r1"
    by (rule run_calls_index_mono)
qed

text \<open>
  A session that receives eight, then nine, then the same nine messages.
\<close>

theorem compacted_index_invariant_witness:
  "admissible Map.empty growing_calls
   \<and> run_calls Map.empty growing_calls ''s''
       = Some \<lparr>messages = nine_messages, index = 5, summary = Some ''recap''\<rparr>
   \<and> (0::int) \<le> 5 \<and> (5::int) \<le> int (length nine_messages)
   \<and> started_store ''s'' = Some \<lparr>messages = [], index = 0, summary = None\<rparr>
   \<and> index (the (run_calls started_store growing_calls ''s'')) = 5"
proof -
  have a: "admissible Map.empty growing_calls"
    by (simp add: growing_calls_def example_defs eval_defs)
  have b: "run_calls Map.empty growing_calls ''s''
       = Some \<lparr>messages = nine_messages, index = 5, summary = Some ''recap''\<rparr>"
    by (simp add: growing_calls_def example_defs eval_defs)
  have c: "started_store ''s'' = Some \<lparr>messages = [], index = 0, summary = None\<rparr>"
    by (simp add: started_store_def)
  have d: "index (the (run_calls started_store growing_calls ''s'')) = 5"
    by (simp add: growing_calls_def example_defs eval_defs)
  show ?thesis
    using compacted_index_invariant [of growing_calls "''s''"
        "\<lparr>messages = nine_messages, index = 5, summary = Some ''recap''\<rparr>"
        started_store "\<lparr>messages = [], index = 0, summary = None\<rparr>" growing_calls]
      a b c d
    by simp
qed

text \<open>
  As first stated the bound is claimed after any sequence of calls. Nine messages twice,
  then a list of two: the stored index is 5 and the stored list has 2 messages.
\<close>

theorem shrunk_list_breaks_index_bound:
  "index (the (run_calls Map.empty shrinking_calls ''s'')) = 5
   \<and> length (messages (the (run_calls Map.empty shrinking_calls ''s''))) = 2"
  by (simp add: shrinking_calls_def example_defs eval_defs)


section \<open>Calling twice with the same list\<close>

text \<open>
  Claim C3, as amended. When the session already has a row, or the list has at most 8
  messages, two calls in a row with the same list, meeting the same summarizer and
  database behaviour, return the same view, and the second call leaves the table (the
  index with it) exactly as the first left it.
\<close>

theorem optimize_twice_same_view:
  assumes "st sid \<noteq> None \<or> int (length msgs) \<le> 8"
  shows "fst (message_memory_optimize summarize f sid msgs
                (snd (message_memory_optimize summarize f sid msgs st)))
           = fst (message_memory_optimize summarize f sid msgs st)
       \<and> snd (message_memory_optimize summarize f sid msgs
                (snd (message_memory_optimize summarize f sid msgs st)))
           = snd (message_memory_optimize summarize f sid msgs st)"
proof (cases "f OpGet \<or> f OpSave")
  case True
  then show ?thesis using mmo_get_fault mmo_save_fault by (metis snd_conv)
next
  case nf: False
  show ?thesis
  proof (cases "st sid")
    case None
    with assms have "int (length msgs) \<le> 8" by simp
    with nf None show ?thesis
      by (simp add: mmo_new mmo_below_threshold build_no_summary)
  next
    case (Some r)
    let ?saved = "\<lparr>messages = msgs, index = index r, summary = summary r\<rparr>"
    show ?thesis
    proof (cases "int (length msgs) - index r \<le> 8")
      case True
      then show ?thesis using nf Some by (simp add: mmo_below_threshold)
    next
      case False
      then have big: "8 < int (length msgs) - index r" by simp
      show ?thesis
      proof (cases "summarize (py_slice msgs (index r) (int (length msgs) - 4)) (summary r)")
        case (Inl e)
        then show ?thesis using nf Some big
          by (simp add: mmo_summarizer_raises [where e = e and r = r]
              mmo_summarizer_raises [where e = e and r = ?saved])
      next
        case (Inr s)
        show ?thesis
        proof (cases "f OpUpdate")
          case True
          then show ?thesis using nf Some big Inr
            by (simp add: mmo_update_fault [where s = s and r = r]
                mmo_update_fault [where s = s and r = ?saved])
        next
          case False
          then show ?thesis using nf Some big Inr
            by (simp add: mmo_compacts [where s = s and r = r] mmo_below_threshold)
        qed
      qed
    qed
  qed
qed

text \<open>
  The existing session \<open>s\<close> called twice with the same nine messages.
\<close>

theorem optimize_twice_same_view_witness:
  "started_store ''s'' \<noteq> None
   \<and> fst (message_memory_optimize (generate_summary recap_llm) no_faults ''s'' nine_messages started_store)
       = [summary_context ''recap'', msg ''m6'', msg ''m7'', msg ''m8'', msg ''m9'']
   \<and> fst (message_memory_optimize (generate_summary recap_llm) no_faults ''s'' nine_messages
        (snd (message_memory_optimize (generate_summary recap_llm) no_faults ''s'' nine_messages started_store)))
       = [summary_context ''recap'', msg ''m6'', msg ''m7'', msg ''m8'', msg ''m9'']
   \<and> snd (message_memory_optimize (generate_summary recap_llm) no_faults ''s'' nine_messages
        (snd (message_memory_optimize (generate_summary recap_llm) no_faults ''s'' nine_messages started_store)))
       = snd (message_memory_optimize (generate_summary recap_llm) no_faults ''s'' nine_messages started_store)"
proof -
  have h: "started_store ''s'' \<noteq> None" by (simp add: started_store_def)
  have v: "fst (message_memory_optimize (generate_summary recap_llm) no_faults ''s'' nine_messages started_store)
       = [summary_context ''recap'', msg ''m6'', msg ''m7'', msg ''m8'', msg ''m9'']"
    by (simp add: example_defs eval_defs)
  show ?thesis
    using optimize_twice_same_view [of started_store "''s''" nine_messages "generate_summary recap_llm" no_faults]
      h v
    by simp
qed

text \<open>
  As first stated the claim covers every session. For a session with no row yet and nine
  messages, the first call returns all nine and stores index 0; the second compacts,
  returns five messages and stores index 5.
\<close>

theorem new_session_second_call_compacts:
  "fst (message_memory_optimize (generate_summary recap_llm) no_faults ''s'' nine_messages Map.empty)
     = nine_messages
   \<and> fst (message_memory_optimize (generate_summary recap_llm) no_faults ''s'' nine_messages
        (snd (message_memory_optimize (generate_summary recap_llm) no_faults ''s'' nine_messages Map.empty)))
     = [summary_context ''recap'', msg ''m6'', msg ''m7'', msg ''m8'', msg ''m9'']
   \<and> index (the (snd (message_memory_optimize (generate_summary recap_llm) no_faults ''s'' nine_messages Map.empty) ''s'')) = 0
   \<and> index (the (snd (message_memory_optimize (generate_summary recap_llm) no_faults ''s'' nine_messages
        (snd (message_memory_optimize (generate_summary recap_llm) no_faults ''s'' nine_messages Map.empty))) ''s'')) = 5"
  by (simp add: example_defs eval_defs)


section \<open>Failures inside the compactor\<close>

text \<open>
  Claim C9. Whatever raises inside \<open>message_memory_optimize\<close>, the call returns the
  caller's list. A failing load or a failing save leaves the table untouched. When the
  summarizer raises, or the update of the summary fails, the row holds the new message
  list with the index and the summary it had before: the index is not advanced.
\<close>

theorem optimize_failures_fall_back:
  "(\<forall>e. fst (message_memory_optimize_try summarize f sid msgs st) = Inl e
        \<longrightarrow> fst (message_memory_optimize summarize f sid msgs st) = msgs)
   \<and> (f OpGet \<or> f OpSave \<longrightarrow> message_memory_optimize summarize f sid msgs st = (msgs, st))
   \<and> (\<not> f OpGet \<and> \<not> f OpSave \<and> st sid = Some r \<and> 8 < int (length msgs) - index r
        \<and> (summarize (py_slice msgs (index r) (int (length msgs) - 4)) (summary r) = Inl e
            \<or> f OpUpdate)
       \<longrightarrow> message_memory_optimize summarize f sid msgs st
            = (msgs, st(sid \<mapsto> \<lparr>messages = msgs, index = index r, summary = summary r\<rparr>)))"
proof (intro conjI impI allI)
  fix e'
  assume "fst (message_memory_optimize_try summarize f sid msgs st) = Inl e'"
  then show "fst (message_memory_optimize summarize f sid msgs st) = msgs"
    by (cases "message_memory_optimize_try summarize f sid msgs st")
       (simp add: message_memory_optimize_def)
next
  assume "f OpGet \<or> f OpSave"
  then show "message_memory_optimize summarize f sid msgs st = (msgs, st)"
    using mmo_get_fault mmo_save_fault by blast
next
  assume h: "\<not> f OpGet \<and> \<not> f OpSave \<and> st sid = Some r \<and> 8 < int (length msgs) - index r
        \<and> (summarize (py_slice msgs (index r) (int (length msgs) - 4)) (summary r) = Inl e
            \<or> f OpUpdate)"
  show "message_memory_optimize summarize f sid msgs st
            = (msgs, st(sid \<mapsto> \<lparr>messages = msgs, index = index r, summary = summary r\<rparr>))"
  proof (cases "summarize (py_slice msgs (index r) (int (length msgs) - 4)) (summary r)")
    case (Inl e'')
    with h show ?thesis by (simp add: mmo_summarizer_raises)
  next
    case (Inr s)
    with h show ?thesis by (simp add: mmo_update_fault)
  qed
qed

text \<open>
  A summarizer that raises, a failing load and a failing update, each on the session \<open>s\<close>
  with nine messages.
\<close>

theorem optimize_failures_fall_back_witness:
  "fst (message_memory_optimize_try raising_summarizer no_faults ''s'' nine_messages started_store)
     = Inl OtherError
   \<and> fst (message_memory_optimize raising_summarizer no_faults ''s'' nine_messages started_store)
       = nine_messages
   \<and> get_fault OpGet
   \<and> message_memory_optimize (generate_summary recap_llm) get_fault ''s'' nine_messages started_store
       = (nine_messages, started_store)
   \<and> started_store ''s'' = Some \<lparr>messages = [], index = 0, summary = None\<rparr>
   \<and> raising_summarizer (py_slice nine_messages 0 (int (length nine_messages) - 4)) None = Inl OtherError
   \<and> message_memory_optimize raising_summarizer no_faults ''s'' nine_messages started_store
       = (nine_messages, started_store(''s'' \<mapsto> \<lparr>messages = nine_messages, index = 0, summary = None\<rparr>))
   \<and> update_fault OpUpdate
   \<and> message_memory_optimize (generate_summary recap_llm) update_fault ''s'' nine_messages started_store
       = (nine_messages, started_store(''s'' \<mapsto> \<lparr>messages = nine_messages, index = 0, summary = None\<rparr>))"
proof -
  have t: "fst (message_memory_optimize_try raising_summarizer no_faults ''s'' nine_messages started_store)
     = Inl OtherError"
    by (simp add: example_defs eval_defs raising_summarizer_def)
  have g: "get_fault OpGet" "\<not> update_fault OpGet" "\<not> update_fault OpSave" "update_fault OpUpdate"
    "\<not> no_faults OpGet" "\<not> no_faults OpSave"
    by (simp_all add: get_fault_def update_fault_def no_faults_def)
  have s: "started_store ''s'' = Some \<lparr>messages = [], index = 0, summary = None\<rparr>"
    by (simp add: started_store_def)
  have l: "8 < int (length nine_messages) - 0" by (simp add: example_defs)
  have r: "raising_summarizer (py_slice nine_messages 0 (int (length nine_messages) - 4)) None = Inl OtherError"
    by (simp add: raising_summarizer_def)
  show ?thesis
    using optimize_failures_fall_back [of raising_summarizer no_faults "''s''" nine_messages started_store
        "\<lparr>messages = [], index = 0, summary = None\<rparr>" OtherError]
      optimize_failures_fall_back [of "generate_summary recap_llm" get_fault "''s''" nine_messages started_store
        "\<lparr>messages = [], index = 0, summary = None\<rparr>" OtherError]
      optimize_failures_fall_back [of "generate_summary recap_llm" update_fault "''s''" nine_messages started_store
        "\<lparr>messages = [], index = 0, summary = None\<rparr>" OtherError]
      t g s l r
    by simp
qed


section \<open>The summary agent never raises\<close>

text \<open>
  Claim C5, as amended. \<open>generate_summary\<close> always returns a string. The fallback text
  is not empty, depends only on the arguments and ends in
  \<open>Conversation with <count> messages\<close>; it is what comes back whenever something raises:
  a text message without a role, the structured call raising, or the plain completion
  raising after the structured call failed with the \<open>NoneType\<close> error. When the model
  answers, its summary comes back as it is, an empty or missing one as the empty string.
  So the empty string comes back only when the conversation text could be built and the
  model call itself returned an empty or missing summary.
\<close>

theorem generate_summary_total:
  "(\<exists>s. generate_summary env msgs prev = Inr s)
   \<and> fallback_summary msgs prev \<noteq> []
   \<and> (\<exists>pre. fallback_summary msgs prev
              = pre @ ''Conversation with '' @ str_nat (length msgs) @ '' messages'')
   \<and> ((\<exists>m \<in> set msgs. has_text m \<and> role m = None) \<longrightarrow>
         generate_summary env msgs prev = Inr (fallback_summary msgs prev))
   \<and> ((\<forall>m \<in> set msgs. has_text m \<longrightarrow> role m \<noteq> None) \<longrightarrow>
         (\<exists>mtext. messages_text msgs = Inr mtext))
   \<and> (\<forall>mtext. messages_text msgs = Inr mtext \<longrightarrow>
         (\<forall>e. chat_parse env system_prompt (user_prompt prev mtext) = ParseRaises e \<longrightarrow>
               generate_summary env msgs prev = Inr (fallback_summary msgs prev))
       \<and> (\<forall>e. chat_parse env system_prompt (user_prompt prev mtext) = NoneTypeNotIterable
               \<and> chat_create env system_prompt (user_prompt prev mtext) = CreateRaises e \<longrightarrow>
               generate_summary env msgs prev = Inr (fallback_summary msgs prev))
       \<and> (\<forall>r. chat_parse env system_prompt (user_prompt prev mtext) = Parsed r \<longrightarrow>
               generate_summary env msgs prev = Inr (case r of None \<Rightarrow> [] | Some s \<Rightarrow> s))
       \<and> (\<forall>r. chat_parse env system_prompt (user_prompt prev mtext) = NoneTypeNotIterable
               \<and> chat_create env system_prompt (user_prompt prev mtext) = Created r \<longrightarrow>
               generate_summary env msgs prev = Inr (case r of None \<Rightarrow> [] | Some s \<Rightarrow> s)))
   \<and> (generate_summary env msgs prev = Inr [] \<longrightarrow>
         (\<exists>mtext. messages_text msgs = Inr mtext
            \<and> (chat_parse env system_prompt (user_prompt prev mtext) = Parsed None
               \<or> chat_parse env system_prompt (user_prompt prev mtext) = Parsed (Some [])
               \<or> (chat_parse env system_prompt (user_prompt prev mtext) = NoneTypeNotIterable
                   \<and> (chat_create env system_prompt (user_prompt prev mtext) = Created None
                      \<or> chat_create env system_prompt (user_prompt prev mtext)
                           = Created (Some []))))))"
proof -
  let ?gs = "generate_summary env msgs prev"
  let ?fb = "fallback_summary msgs prev"
  have total: "\<exists>s. ?gs = Inr s" by (rule generate_summary_returns)
  have ne: "?fb \<noteq> []" by (rule fallback_nonempty)
  have shape: "\<exists>pre. ?fb = pre @ ''Conversation with '' @ str_nat (length msgs) @ '' messages''"
    by (rule fallback_shape)
  have norole: "?gs = Inr ?fb" if "\<exists>m \<in> set msgs. has_text m \<and> role m = None"
  proof -
    from that obtain e where "messages_text msgs = Inl e"
      using messages_text_raises by blast
    then show ?thesis by (simp add: generate_summary_def generate_summary_try_def)
  qed
  have built: "\<exists>mtext. messages_text msgs = Inr mtext"
    if "\<forall>m \<in> set msgs. has_text m \<longrightarrow> role m \<noteq> None"
  proof (cases "messages_text msgs")
    case (Inl e)
    then have "\<exists>m \<in> set msgs. has_text m \<and> role m = None"
      using messages_text_raises by blast
    with that show ?thesis by blast
  next
    case (Inr mtext)
    then show ?thesis by blast
  qed
  have answers: "(\<forall>e. chat_parse env system_prompt (user_prompt prev mtext) = ParseRaises e \<longrightarrow>
               ?gs = Inr ?fb)
       \<and> (\<forall>e. chat_parse env system_prompt (user_prompt prev mtext) = NoneTypeNotIterable
               \<and> chat_create env system_prompt (user_prompt prev mtext) = CreateRaises e \<longrightarrow>
               ?gs = Inr ?fb)
       \<and> (\<forall>r. chat_parse env system_prompt (user_prompt prev mtext) = Parsed r \<longrightarrow>
               ?gs = Inr (case r of None \<Rightarrow> [] | Some s \<Rightarrow> s))
       \<and> (\<forall>r. chat_parse env system_prompt (user_prompt prev mtext) = NoneTypeNotIterable
               \<and> chat_create env system_prompt (user_prompt prev mtext) = Created r \<longrightarrow>
               ?gs = Inr (case r of None \<Rightarrow> [] | Some s \<Rightarrow> s))"
    if "messages_text msgs = Inr mtext" for mtext
    using that
    by (auto simp: generate_summary_def generate_summary_try_def truthy_def Let_def
        split: option.splits)
  have empty: "\<exists>mtext. messages_text msgs = Inr mtext
            \<and> (chat_parse env system_prompt (user_prompt prev mtext) = Parsed None
               \<or> chat_parse env system_prompt (user_prompt prev mtext) = Parsed (Some [])
               \<or> (chat_parse env system_prompt (user_prompt prev mtext) = NoneTypeNotIterable
                   \<and> (chat_create env system_prompt (user_prompt prev mtext) = Created None
                      \<or> chat_create env system_prompt (user_prompt prev mtext)
                           = Created (Some []))))"
    if e: "?gs = Inr []"
  proof (cases "messages_text msgs")
    case (Inl x)
    then have "?gs = Inr ?fb" by (simp add: generate_summary_def generate_summary_try_def)
    with e ne show ?thesis by simp
  next
    case (Inr mtext)
    let ?p = "chat_parse env system_prompt (user_prompt prev mtext)"
    let ?c = "chat_create env system_prompt (user_prompt prev mtext)"
    note a = answers [OF Inr]
    have "?p = Parsed None \<or> ?p = Parsed (Some [])
          \<or> (?p = NoneTypeNotIterable \<and> (?c = Created None \<or> ?c = Created (Some [])))"
    proof (cases ?p)
      case (Parsed r)
      with a e show ?thesis by (cases r) auto
    next
      case NoneTypeNotIterable
      show ?thesis
      proof (cases ?c)
        case (Created r)
        with a e NoneTypeNotIterable show ?thesis by (cases r) auto
      next
        case (CreateRaises x)
        with a NoneTypeNotIterable have "?gs = Inr ?fb" by blast
        with e ne show ?thesis by simp
      qed
    next
      case (ParseRaises x)
      with a have "?gs = Inr ?fb" by blast
      with e ne show ?thesis by simp
    qed
    with Inr show ?thesis by blast
  qed
  from total ne shape norole built answers empty show ?thesis by blast
qed

text \<open>
  A text message without a role, a model that is down, a model whose plain completion is
  down, a model that answers and a model that answers with an empty summary.
\<close>

theorem generate_summary_total_witness:
  "has_text (roleless ''x'') \<and> role (roleless ''x'') = None
   \<and> generate_summary recap_llm [msg ''a'', roleless ''x''] None
       = Inr ''Conversation with 2 messages''
   \<and> chat_parse broken_llm system_prompt
        (user_prompt (Some ''old'') (projr (messages_text [msg ''a'', msg ''b''])))
       = ParseRaises NetworkError
   \<and> generate_summary broken_llm [msg ''a'', msg ''b''] (Some ''old'')
       = Inr ''old | Conversation with 2 messages''
   \<and> generate_summary plain_llm [msg ''a'', msg ''b''] None = Inr ''Conversation with 2 messages''
   \<and> generate_summary recap_llm [msg ''a'', msg ''b''] None = Inr ''recap''
   \<and> generate_summary silent_llm [msg ''a''] None = Inr []
   \<and> chat_parse silent_llm system_prompt (user_prompt None (projr (messages_text [msg ''a''])))
       = Parsed (Some [])"
proof -
  have r: "has_text (roleless ''x'')" "role (roleless ''x'') = None"
    by (simp_all add: roleless_def has_text_def)
  then have r': "\<exists>m \<in> set [msg ''a'', roleless ''x'']. has_text m \<and> role m = None" by simp
  have ok: "\<forall>m \<in> set [msg ''a'', msg ''b'']. has_text m \<longrightarrow> role m \<noteq> None"
    "\<forall>m \<in> set [msg ''a'']. has_text m \<longrightarrow> role m \<noteq> None"
    by (simp_all add: msg_def)
  have f: "fallback_summary [msg ''a'', msg ''b''] (Some ''old'') = ''old | Conversation with 2 messages''"
    "fallback_summary [msg ''a'', msg ''b''] None = ''Conversation with 2 messages''"
    "fallback_summary [msg ''a'', roleless ''x''] None = ''Conversation with 2 messages''"
    by code_simp+
  have p: "chat_parse broken_llm p1 p2 = ParseRaises NetworkError"
    "chat_parse plain_llm p1 p2 = NoneTypeNotIterable"
    "chat_create plain_llm p1 p2 = CreateRaises NetworkError"
    "chat_parse recap_llm p1 p2 = Parsed (Some ''recap'')"
    "chat_parse silent_llm p1 p2 = Parsed (Some [])" for p1 p2
    by (simp_all add: broken_llm_def plain_llm_def recap_llm_def silent_llm_def)
  note t1 = generate_summary_total [of recap_llm "[msg ''a'', roleless ''x'']" None]
  note t2 = generate_summary_total [of broken_llm "[msg ''a'', msg ''b'']" "Some ''old''"]
  note t3 = generate_summary_total [of plain_llm "[msg ''a'', msg ''b'']" None]
  note t4 = generate_summary_total [of recap_llm "[msg ''a'', msg ''b'']" None]
  note t5 = generate_summary_total [of silent_llm "[msg ''a'']" None]
  from t1 [THEN conjunct2, THEN conjunct2, THEN conjunct2, THEN conjunct1] r'
  have "generate_summary recap_llm [msg ''a'', roleless ''x''] None
       = Inr (fallback_summary [msg ''a'', roleless ''x''] None)"
    by (rule mp)
  then have g1: "generate_summary recap_llm [msg ''a'', roleless ''x''] None
       = Inr ''Conversation with 2 messages''"
    by (simp only: f)
  from t2 ok p have g2: "generate_summary broken_llm [msg ''a'', msg ''b''] (Some ''old'')
       = Inr ''old | Conversation with 2 messages''"
    by (metis f(1))
  from t3 ok p have g3: "generate_summary plain_llm [msg ''a'', msg ''b''] None
       = Inr ''Conversation with 2 messages''"
    by (metis f(2))
  from t4 ok p have g4: "generate_summary recap_llm [msg ''a'', msg ''b''] None = Inr ''recap''"
    by (metis option.simps(5))
  from t5 ok p have g5: "generate_summary silent_llm [msg ''a''] None = Inr []"
    by (metis option.simps(5))
  from r g1 g2 g3 g4 g5 p show ?thesis by simp
qed

text \<open>
  As first stated the result is never empty. With a model whose parsed summary is empty,
  the result is the empty string.
\<close>

theorem generate_summary_may_be_empty:
  "generate_summary silent_llm nine_messages None = Inr []"
  by (simp add: example_defs eval_defs)

section \<open>Progress of a download\<close>

text \<open>
  Claim C4, as amended. The download's record exists. Between two successive \<open>update\<close>
  calls, the second with a non-negative size, the recorded byte count does not
  decrease, and neither does the recorded percentage, float rounding being monotone.
  After a successful return of \<open>end\<close>, a further \<open>update\<close> is not ignored: it adds its size
  to the recorded byte count and writes the percentage, the speed and the remaining time
  computed from the new byte count and the time of that call, and leaves only the status,
  the error message and the total time as \<open>end\<close> wrote them.
\<close>

theorem update_monotone_not_frozen:
  assumes "reg (self_download_id cb) = Some r"
  shows "(0 \<le> sz2 \<longrightarrow>
          (\<exists>r1 r2. snd (callback_update rnd t1 sz1 (cb, reg)) (self_download_id cb) = Some r1
             \<and> snd (callback_update rnd t2 sz2 (callback_update rnd t1 sz1 (cb, reg)))
                  (self_download_id cb) = Some r2
             \<and> progress r1 \<le> progress r2
             \<and> (mono rnd \<longrightarrow> percentage r1 \<le> percentage r2)))
       \<and> (callback_end rnd t1 success err (cb, reg) = (Inr (), cb', reg') \<longrightarrow>
          (\<exists>r1 r2. reg' (self_download_id cb) = Some r1
             \<and> snd (callback_update rnd t2 sz (cb', reg')) (self_download_id cb) = Some r2
             \<and> progress r2 = progress r1 + sz
             \<and> percentage r2 = recorded_percentage rnd (progress r1 + sz) (self_file_size cb)
             \<and> speed r2 = recorded_speed rnd (progress r1 + sz) (rnd (t2 - self_start_time cb))
             \<and> estimated_time r2
                 = recorded_estimate rnd (progress r1 + sz) (self_file_size cb)
                     (rnd (t2 - self_start_time cb))
             \<and> status r2 = status r1 \<and> error_message r2 = error_message r1
             \<and> total_time r2 = total_time r1))"
proof (intro conjI impI)
  assume nn: "0 \<le> sz2"
  obtain cb1 reg1 where s1: "callback_update rnd t1 sz1 (cb, reg) = (cb1, reg1)"
    by (cases "callback_update rnd t1 sz1 (cb, reg)") auto
  have cb1: "cb1 = cb\<lparr>self_progress := self_progress cb + sz1\<rparr>"
    using callback_update_self [of rnd t1 sz1 cb reg] s1 by simp
  obtain r1 where r1: "reg1 (self_download_id cb) = Some r1"
      "progress r1 = self_progress cb + sz1"
      "percentage r1 = recorded_percentage rnd (self_progress cb + sz1) (self_file_size cb)"
    using callback_update_record [where reg = reg and cb = cb and r = r and rnd = rnd
        and now = t1 and sz = sz1]
      assms s1 by auto
  have "reg1 (self_download_id cb1) = Some r1" using r1 cb1 by simp
  from callback_update_record [where reg = reg1 and cb = cb1 and r = r1 and rnd = rnd
      and now = t2 and sz = sz2] this
  obtain r2 where r2: "snd (callback_update rnd t2 sz2 (cb1, reg1)) (self_download_id cb) = Some r2"
      "progress r2 = self_progress cb + sz1 + sz2"
      "percentage r2
         = recorded_percentage rnd (self_progress cb + sz1 + sz2) (self_file_size cb)"
    using cb1 by auto
  have "mono rnd \<longrightarrow> percentage r1 \<le> percentage r2"
    using nn r1 r2 by (simp add: recorded_percentage_mono)
  moreover have "progress r1 \<le> progress r2" using nn r1 r2 by simp
  ultimately show "\<exists>r1 r2. snd (callback_update rnd t1 sz1 (cb, reg)) (self_download_id cb) = Some r1
             \<and> snd (callback_update rnd t2 sz2 (callback_update rnd t1 sz1 (cb, reg)))
                  (self_download_id cb) = Some r2
             \<and> progress r1 \<le> progress r2
             \<and> (mono rnd \<longrightarrow> percentage r1 \<le> percentage r2)"
    using r1 r2 s1 by auto
next
  assume e: "callback_end rnd t1 success err (cb, reg) = (Inr (), cb', reg')"
  from callback_end_record [where reg = reg and cb = cb and r = r, OF assms e]
  obtain r1 where r1: "reg' (self_download_id cb) = Some r1" "progress r1 = self_progress cb"
    and cb': "self_progress cb' = self_progress cb" "self_download_id cb' = self_download_id cb"
      "self_file_size cb' = self_file_size cb" "self_start_time cb' = self_start_time cb"
    by auto
  have "reg' (self_download_id cb') = Some r1" using r1 cb' by simp
  from callback_update_record [where reg = reg' and cb = cb' and r = r1 and rnd = rnd
      and now = t2 and sz = sz] this
  show "\<exists>r1 r2. reg' (self_download_id cb) = Some r1
             \<and> snd (callback_update rnd t2 sz (cb', reg')) (self_download_id cb) = Some r2
             \<and> progress r2 = progress r1 + sz
             \<and> percentage r2 = recorded_percentage rnd (progress r1 + sz) (self_file_size cb)
             \<and> speed r2 = recorded_speed rnd (progress r1 + sz) (rnd (t2 - self_start_time cb))
             \<and> estimated_time r2
                 = recorded_estimate rnd (progress r1 + sz) (self_file_size cb)
                     (rnd (t2 - self_start_time cb))
             \<and> status r2 = status r1 \<and> error_message r2 = error_message r1
             \<and> total_time r2 = total_time r1"
    using r1 cb' by auto
qed

text \<open>
  A download of 128 bytes: two updates of 32 bytes at times 1 and 2 take the percentage
  from 25 to 50; after \<open>end(success=False)\<close> at time 1 on the fresh download, an update of
  32 bytes at time 2 takes the record from 0 bytes, 0 percent and speed 0 to 32 bytes,
  25 percent, 16 bytes a second and 6 seconds left, the status staying \<open>failed\<close>.
\<close>

theorem update_monotone_not_frozen_witness:
  "snd demo_download (self_download_id (fst demo_download)) \<noteq> None
   \<and> mono no_rounding
   \<and> percentage (the (snd (callback_update no_rounding 1 32 demo_download) ''d1'')) = 25
   \<and> percentage (the (snd (callback_update no_rounding 2 32
                              (callback_update no_rounding 1 32 demo_download)) ''d1'')) = 50
   \<and> fst (callback_end no_rounding 1 False (Some ''x'') demo_download) = Inr ()
   \<and> progress (the (snd (snd (callback_end no_rounding 1 False (Some ''x'') demo_download))
                      ''d1'')) = 0
   \<and> percentage (the (snd (snd (callback_end no_rounding 1 False (Some ''x'') demo_download))
                      ''d1'')) = 0
   \<and> progress (the (snd (callback_update no_rounding 2 32
                            (snd (callback_end no_rounding 1 False (Some ''x'') demo_download)))
                      ''d1'')) = 32
   \<and> percentage (the (snd (callback_update no_rounding 2 32
                            (snd (callback_end no_rounding 1 False (Some ''x'') demo_download)))
                      ''d1'')) = 25
   \<and> speed (the (snd (callback_update no_rounding 2 32
                            (snd (callback_end no_rounding 1 False (Some ''x'') demo_download)))
                      ''d1'')) = 16
   \<and> estimated_time (the (snd (callback_update no_rounding 2 32
                            (snd (callback_end no_rounding 1 False (Some ''x'') demo_download)))
                      ''d1'')) = Some 6
   \<and> status (the (snd (callback_update no_rounding 2 32
                            (snd (callback_end no_rounding 1 False (Some ''x'') demo_download)))
                      ''d1'')) = Failed"
proof -
  let ?cb = "fst demo_download" and ?reg = "snd demo_download"
  let ?e = "callback_end no_rounding 1 False (Some ''x'') demo_download"
  have h: "?reg (self_download_id ?cb) = Some (the (?reg ''d1''))"
    by (simp add: dl_defs)
  have id: "self_download_id ?cb = ''d1''" "self_file_size ?cb = 128" "self_start_time ?cb = 0"
    by (simp_all add: dl_defs)
  have m: "mono no_rounding" by (simp add: no_rounding_def mono_def)
  have ok: "fst ?e = Inr ()" by (simp add: dl_defs)
  then have e: "callback_end no_rounding 1 False (Some ''x'') (?cb, ?reg)
                  = (Inr (), fst (snd ?e), snd (snd ?e))"
    by (metis prod.collapse)
  have before: "progress (the (snd (snd ?e) ''d1'')) = 0" "percentage (the (snd (snd ?e) ''d1'')) = 0"
    "status (the (snd (snd ?e) ''d1'')) = Failed"
    by (simp_all add: dl_defs)
  have p1: "percentage (the (snd (callback_update no_rounding 1 32 demo_download) ''d1'')) = 25"
    by (simp add: dl_defs py_round2_def) code_simp
  have v: "recorded_percentage no_rounding 32 128 = 25"
    "recorded_percentage no_rounding 64 128 = 50"
    "recorded_speed no_rounding 32 2 = 16"
    "recorded_estimate no_rounding 32 128 2 = Some 6"
    by code_simp+
  note inst = update_monotone_not_frozen [where reg = ?reg and cb = ?cb
      and r = "the (?reg ''d1'')" and rnd = no_rounding and ?sz2.0 = 32 and ?t1.0 = 1
      and ?sz1.0 = 32 and ?t2.0 = 2 and success = False and err = "Some ''x''"
      and cb' = "fst (snd ?e)" and reg' = "snd (snd ?e)" and sz = 32]
  from inst h m have mono: "\<exists>r1 r2. snd (callback_update no_rounding 1 32 demo_download) ''d1'' = Some r1
             \<and> snd (callback_update no_rounding 2 32 (callback_update no_rounding 1 32 demo_download))
                  ''d1'' = Some r2
             \<and> progress r1 \<le> progress r2 \<and> percentage r1 \<le> percentage r2"
    by (simp add: id)
  from inst h e have later: "\<exists>r1 r2. snd (snd ?e) ''d1'' = Some r1
             \<and> snd (callback_update no_rounding 2 32 (snd ?e)) ''d1'' = Some r2
             \<and> progress r2 = progress r1 + 32
             \<and> percentage r2 = recorded_percentage no_rounding (progress r1 + 32) 128
             \<and> speed r2 = recorded_speed no_rounding (progress r1 + 32) (no_rounding (2 - 0))
             \<and> estimated_time r2
                 = recorded_estimate no_rounding (progress r1 + 32) 128 (no_rounding (2 - 0))
             \<and> status r2 = status r1 \<and> error_message r2 = error_message r1
             \<and> total_time r2 = total_time r1"
    by (simp add: id)
  have p2: "percentage (the (snd (callback_update no_rounding 2 32
                              (callback_update no_rounding 1 32 demo_download)) ''d1'')) = 50"
    using v by (simp add: callback_update_def callback_init_def demo_download_def Let_def)
  from later before v have after:
    "progress (the (snd (callback_update no_rounding 2 32 (snd ?e)) ''d1'')) = 32"
    "percentage (the (snd (callback_update no_rounding 2 32 (snd ?e)) ''d1'')) = 25"
    "speed (the (snd (callback_update no_rounding 2 32 (snd ?e)) ''d1'')) = 16"
    "estimated_time (the (snd (callback_update no_rounding 2 32 (snd ?e)) ''d1'')) = Some 6"
    "status (the (snd (callback_update no_rounding 2 32 (snd ?e)) ''d1'')) = Failed"
    by (auto simp: no_rounding_def)
  from h m mono ok before after p1 p2 show ?thesis by auto
qed

text \<open>
  As first stated an \<open>update\<close> after \<open>end\<close> changes nothing. After 64 of 128 bytes at time
  1 and \<open>end(success=False)\<close> at time 2 the record shows 64 bytes and 50 percent; one more
  \<open>update(32)\<close> at time 3 makes it 96 bytes and 75 percent.
\<close>

theorem update_after_end_changes_record:
  "progress (the (snd (snd (callback_end no_rounding 2 False (Some ''x'')
                             (callback_update no_rounding 1 64 demo_download))) ''d1'')) = 64
   \<and> percentage (the (snd (snd (callback_end no_rounding 2 False (Some ''x'')
                             (callback_update no_rounding 1 64 demo_download))) ''d1'')) = 50
   \<and> progress (the (snd (callback_update no_rounding 3 32
        (snd (callback_end no_rounding 2 False (Some ''x'')
               (callback_update no_rounding 1 64 demo_download)))) ''d1'')) = 96
   \<and> percentage (the (snd (callback_update no_rounding 3 32
        (snd (callback_end no_rounding 2 False (Some ''x'')
               (callback_update no_rounding 1 64 demo_download)))) ''d1'')) = 75"
  by code_simp

section \<open>The completeness assertion of \<open>end\<close>\<close>

text \<open>
  Claim C10. When \<open>end(success=True)\<close> is called while the accumulated byte count differs
  from the file size, the call raises \<open>AssertionError\<close> and the shared registry is left
  exactly as it was; a record whose status was \<open>downloading\<close> is still \<open>downloading\<close>.
\<close>

theorem end_assertion_leaves_record:
  assumes "self_progress cb \<noteq> self_file_size cb"
  shows "fst (callback_end rnd now True err (cb, reg)) = Inl AssertionError
       \<and> snd (snd (callback_end rnd now True err (cb, reg))) = reg
       \<and> (\<forall>r. reg (self_download_id cb) = Some r \<and> status r = Downloading \<longrightarrow>
            (\<exists>r'. snd (snd (callback_end rnd now True err (cb, reg))) (self_download_id cb) = Some r'
                  \<and> status r' = Downloading))"
  using assms by (simp add: callback_end_def Let_def)

text \<open>
  Sixty-four of 128 bytes received, then \<open>end(success=True)\<close>.
\<close>

theorem end_assertion_leaves_record_witness:
  "self_progress (fst (callback_update no_rounding 1 64 demo_download))
     \<noteq> self_file_size (fst (callback_update no_rounding 1 64 demo_download))
   \<and> fst (callback_end no_rounding 2 True None (callback_update no_rounding 1 64 demo_download))
       = Inl AssertionError
   \<and> snd (snd (callback_end no_rounding 2 True None (callback_update no_rounding 1 64 demo_download)))
       = snd (callback_update no_rounding 1 64 demo_download)
   \<and> status (the (snd (callback_update no_rounding 1 64 demo_download) ''d1'')) = Downloading
   \<and> status (the (snd (snd (callback_end no_rounding 2 True None
                               (callback_update no_rounding 1 64 demo_download))) ''d1''))
       = Downloading"
proof -
  obtain cb reg where u: "callback_update no_rounding 1 64 demo_download = (cb, reg)"
    by (cases "callback_update no_rounding 1 64 demo_download") auto
  have h: "self_progress cb \<noteq> self_file_size cb" using u by (auto simp: dl_defs)
  have id: "self_download_id cb = ''d1''" using u by (auto simp: dl_defs)
  have s: "status (the (reg ''d1'')) = Downloading" using u by (auto simp: dl_defs)
  have ex: "reg ''d1'' \<noteq> None" using u by (auto simp: dl_defs)
  show ?thesis
    using end_assertion_leaves_record [of cb no_rounding 2 None reg] u h id s ex
    by auto
qed

section \<open>Unified search sorted by downloads\<close>

text \<open>
  Claim C6. With \<open>sort_by="downloads"\<close>, \<open>search_unified\<close> returns a page of a merged
  list that is a rearrangement of the concatenated per-source model lists, in descending
  order of the downloads count with a missing count read as 0 (the lowest, counts being
  non-negative), models of equal count keeping their input order. The page is the slice
  \<open>[(page-1)*page_size : page*page_size]\<close> of the merged list, which for a page number
  from 1 and a non-negative page size is \<open>page_size\<close> entries after the first
  \<open>(page-1)*page_size\<close>.
\<close>

theorem search_unified_by_downloads:
  assumes "arg_sort_by args = Some ''downloads''"
  shows "\<exists>all_results res merged.
      search_all gw (args\<lparr>arg_page := 1, arg_page_size := arg_page_size args * int (length gw)\<rparr>)
          sources
        = Inr all_results
    \<and> search_unified gw args sources = Inr res
    \<and> mset merged = mset (concat (map (\<lambda>kv. sr_models (snd kv)) all_results))
    \<and> sorted_wrt (\<lambda>a b. or_zero (downloads b) \<le> or_zero (downloads a)) merged
    \<and> (\<forall>k. filter (\<lambda>m. or_zero (downloads m) = k) merged
           = filter (\<lambda>m. or_zero (downloads m) = k)
               (concat (map (\<lambda>kv. sr_models (snd kv)) all_results)))
    \<and> ((\<forall>m \<in> set merged. \<forall>n. downloads m = Some n \<longrightarrow> 0 \<le> n) \<longrightarrow>
         (\<forall>m0 \<in> set merged. \<forall>m \<in> set merged.
            downloads m0 = None \<longrightarrow> or_zero (downloads m0) \<le> or_zero (downloads m)))
    \<and> sr_models res = py_slice merged ((arg_page args - 1) * arg_page_size args)
                                      (arg_page args * arg_page_size args)
    \<and> (1 \<le> arg_page args \<and> 0 \<le> arg_page_size args \<longrightarrow>
          sr_models res = take (nat (arg_page_size args))
                            (drop (nat ((arg_page args - 1) * arg_page_size args)) merged))"
proof -
  let ?args1 = "args\<lparr>arg_page := 1, arg_page_size := arg_page_size args * int (length gw)\<rparr>"
  obtain all_results where ar: "search_all gw ?args1 sources = Inr all_results"
    using search_all_eq by blast
  let ?combined = "concat (map (\<lambda>kv. sr_models (snd kv)) all_results)"
  let ?key = "\<lambda>m. or_zero (downloads m)"
  let ?merged = "sort_reverse ?key ?combined"
  let ?res = "\<lparr>sr_models = py_slice ?merged ((arg_page args - 1) * arg_page_size args)
                              (arg_page args * arg_page_size args),
               sr_total = sum_list (map (\<lambda>kv. sr_total (snd kv)) all_results),
               sr_source = LOCAL, sr_page = arg_page args, sr_page_size = arg_page_size args\<rparr>"
  have stop: "(arg_page args - 1) * arg_page_size args + arg_page_size args
                = arg_page args * arg_page_size args"
    by (simp add: algebra_simps)
  have su: "search_unified gw args sources = Inr ?res"
    using ar assms by (simp add: search_unified_def Let_def unified_sort_def stop)
  have low: "(\<forall>m \<in> set ?merged. \<forall>n. downloads m = Some n \<longrightarrow> 0 \<le> n) \<longrightarrow>
         (\<forall>m0 \<in> set ?merged. \<forall>m \<in> set ?merged.
            downloads m0 = None \<longrightarrow> or_zero (downloads m0) \<le> or_zero (downloads m))"
    by (auto simp: or_zero_def split: option.splits)
  have pg: "1 \<le> arg_page args \<and> 0 \<le> arg_page_size args \<longrightarrow>
          sr_models ?res = take (nat (arg_page_size args))
                            (drop (nat ((arg_page args - 1) * arg_page_size args)) ?merged)"
    by (simp add: py_slice_page)
  show ?thesis
    apply (rule exI [of _ all_results])
    apply (rule exI [of _ ?res])
    apply (rule exI [of _ ?merged])
    using ar su low pg
    by (simp add: sort_reverse_mset sort_reverse_descending sort_reverse_stable)
qed

text \<open>
  Two catalogues with three and two models, page size 3: the first and the second page.
\<close>

theorem search_unified_by_downloads_witness:
  "arg_sort_by by_downloads = Some ''downloads''
   \<and> 1 \<le> arg_page by_downloads \<and> 0 \<le> arg_page_size by_downloads
   \<and> map model_id (sr_models (projr (search_unified two_catalogues by_downloads None)))
       = [''org/c'', ''12'', ''org/a'']
   \<and> map downloads (sr_models (projr (search_unified two_catalogues by_downloads None)))
       = [Some 9, Some 7, Some 5]
   \<and> map model_id
        (sr_models (projr (search_unified two_catalogues (by_downloads\<lparr>arg_page := 2\<rparr>) None)))
       = [''11'', ''org/b'']
   \<and> map downloads
        (sr_models (projr (search_unified two_catalogues (by_downloads\<lparr>arg_page := 2\<rparr>) None)))
       = [Some 5, None]"
proof -
  have pg: "1 \<le> arg_page by_downloads" "0 \<le> arg_page_size by_downloads"
    by (simp_all add: by_downloads_def)
  have d1: "map downloads (sr_models (projr (search_unified two_catalogues by_downloads None)))
       = [Some 9, Some 7, Some 5]"
    by code_simp
  have d2: "map downloads
        (sr_models (projr (search_unified two_catalogues (by_downloads\<lparr>arg_page := 2\<rparr>) None)))
       = [Some 5, None]"
    by code_simp
  have h: "arg_sort_by by_downloads = Some ''downloads''" by (simp add: by_downloads_def)
  have h2: "arg_sort_by (by_downloads\<lparr>arg_page := 2\<rparr>) = Some ''downloads''"
    by (simp add: by_downloads_def)
  have p1: "map model_id (sr_models (projr (search_unified two_catalogues by_downloads None)))
       = [''org/c'', ''12'', ''org/a'']"
    by code_simp
  have p2: "map model_id
        (sr_models (projr (search_unified two_catalogues (by_downloads\<lparr>arg_page := 2\<rparr>) None)))
       = [''11'', ''org/b'']"
    by code_simp
  from search_unified_by_downloads [OF h, of two_catalogues None]
    search_unified_by_downloads [OF h2, of two_catalogues None] h p1 p2 pg d1 d2
  show ?thesis by simp
qed


section \<open>Isolation of a failing source\<close>




section \<open>Inferring the source from a model id\<close>

text \<open>
  Claim C8. With no explicit source, an id starting with \<open>local:\<close> goes to the Local
  adapter; otherwise an id containing \<open>/\<close> goes to the HuggingFace adapter; otherwise an
  id made of digits goes to the Civitai adapter (each when that adapter is registered),
  for \<open>get_model_info\<close> and \<open>download_model\<close> alike. For an id matching none of the three,
  \<open>get_model_info\<close> asks the registered adapters in registration order and returns the
  answer of the first that returns a model, or \<open>None\<close> when none does.
\<close>

theorem id_inference_order:
  "(startswith mid ''local:'' \<and> map_of gw LOCAL = Some a \<longrightarrow>
      get_model_info gw mid None = source_get_model_info a mid
      \<and> download_model gw mid dest None = source_download_model a mid dest)
 \<and> (\<not> startswith mid ''local:'' \<and> CHR ''/'' \<in> set mid \<and> map_of gw HUGGINGFACE = Some a \<longrightarrow>
      get_model_info gw mid None = source_get_model_info a mid
      \<and> download_model gw mid dest None = source_download_model a mid dest)
 \<and> (\<not> startswith mid ''local:'' \<and> CHR ''/'' \<notin> set mid \<and> isdigit mid
      \<and> map_of gw CIVITAI = Some a \<longrightarrow>
      get_model_info gw mid None = source_get_model_info a mid
      \<and> download_model gw mid dest None = source_download_model a mid dest)
 \<and> (\<not> startswith mid ''local:'' \<and> CHR ''/'' \<notin> set mid \<and> \<not> isdigit mid \<longrightarrow>
      get_model_info gw mid None =
        Inr (case find (\<lambda>s. \<exists>info. source_get_model_info s mid = Inr (Some info)) (map snd gw) of
               None \<Rightarrow> None
             | Some s \<Rightarrow> (case source_get_model_info s mid of Inr info \<Rightarrow> info | Inl e \<Rightarrow> None)))"
  by (simp add: get_model_info_def download_model_def Let_def try_all_sources_find)

text \<open>
  Three registered sources and ids of each kind, the one-character id U+00B2 (superscript
  two, a digit to \<open>str.isdigit\<close>) among them; \<open>flux\<close> matches no rule and is found by the
  second adapter asked.
\<close>

theorem id_inference_order_witness:
  "startswith ''local:checkpoints/foo.safetensors'' ''local:''
   \<and> download_model three_sources ''local:checkpoints/foo.safetensors'' ''dir'' None
       = Inr ''local:checkpoints/foo.safetensors''
   \<and> CHR ''/'' \<in> set ''org/name''
   \<and> download_model three_sources ''org/name'' ''dir'' None = Inr ''dir/hub''
   \<and> isdigit ''12345''
   \<and> download_model three_sources ''12345'' ''dir'' None = Inr ''dir/numeric''
   \<and> isdigit [CHR 0xB2]
   \<and> download_model three_sources [CHR 0xB2] ''dir'' None = Inr ''dir/numeric''
   \<and> get_model_info three_sources ''org/a'' None = Inr (Some (model ''org/a'' HUGGINGFACE (Some 5)))
   \<and> get_model_info three_sources ''flux'' None = Inr (Some (model ''flux'' CIVITAI (Some 7)))
   \<and> get_model_info three_sources ''unknown'' None = Inr None"
proof -
  have m: "map_of three_sources LOCAL = Some local_adapter"
    "map_of three_sources HUGGINGFACE = Some hub_adapter"
    "map_of three_sources CIVITAI = Some numeric_adapter"
    by (simp_all add: three_sources_def)
  have p: "startswith ''local:checkpoints/foo.safetensors'' ''local:''"
    "\<not> startswith ''org/name'' ''local:''" "CHR ''/'' \<in> set ''org/name''"
    "\<not> startswith ''org/a'' ''local:''" "CHR ''/'' \<in> set ''org/a''"
    "\<not> startswith ''12345'' ''local:''" "CHR ''/'' \<notin> set ''12345''" "isdigit ''12345''"
    "\<not> startswith ''flux'' ''local:''" "CHR ''/'' \<notin> set ''flux''" "\<not> isdigit ''flux''"
    "\<not> startswith ''unknown'' ''local:''" "CHR ''/'' \<notin> set ''unknown''" "\<not> isdigit ''unknown''"
    by (simp_all add: startswith_def isdigit_def is_digit_def)
  have q: "\<not> startswith [CHR 0xB2] ''local:''" "CHR ''/'' \<notin> set [CHR 0xB2]" "isdigit [CHR 0xB2]"
    by code_simp+
  have a: "source_download_model local_adapter ''local:checkpoints/foo.safetensors'' ''dir''
             = Inr ''local:checkpoints/foo.safetensors''"
    "source_download_model hub_adapter ''org/name'' ''dir'' = Inr ''dir/hub''"
    "source_download_model numeric_adapter ''12345'' ''dir'' = Inr ''dir/numeric''"
    "source_download_model numeric_adapter [CHR 0xB2] ''dir'' = Inr ''dir/numeric''"
    "source_get_model_info hub_adapter ''org/a'' = Inr (Some (model ''org/a'' HUGGINGFACE (Some 5)))"
    by (simp_all add: local_adapter_def hub_adapter_def numeric_adapter_def)
  have f1: "(case find (\<lambda>s. \<exists>info. source_get_model_info s ''flux'' = Inr (Some info))
                 (map snd three_sources) of
               None \<Rightarrow> None
             | Some s \<Rightarrow> (case source_get_model_info s ''flux'' of Inr info \<Rightarrow> info | Inl e \<Rightarrow> None))
            = Some (model ''flux'' CIVITAI (Some 7))"
    by (simp add: three_sources_def hub_adapter_def numeric_adapter_def local_adapter_def)
  have f2: "(case find (\<lambda>s. \<exists>info. source_get_model_info s ''unknown'' = Inr (Some info))
                 (map snd three_sources) of
               None \<Rightarrow> None
             | Some s \<Rightarrow> (case source_get_model_info s ''unknown'' of Inr info \<Rightarrow> info | Inl e \<Rightarrow> None))
            = None"
    by (simp add: three_sources_def hub_adapter_def numeric_adapter_def local_adapter_def)
  from id_inference_order [of "''local:checkpoints/foo.safetensors''" three_sources local_adapter "''dir''"]
    id_inference_order [of "''org/name''" three_sources hub_adapter "''dir''"]
    id_inference_order [of "''org/a''" three_sources hub_adapter "''dir''"]
    id_inference_order [of "''12345''" three_sources numeric_adapter "''dir''"]
    id_inference_order [of "''flux''" three_sources numeric_adapter "''dir''"]
    id_inference_order [of "''unknown''" three_sources numeric_adapter "''dir''"]
    id_inference_order [of "[CHR 0xB2]" three_sources numeric_adapter "''dir''"]
    m p q a f1 f2
  show ?thesis by simp
qed


end
